theory Spec2Isabelle
  imports Main "HOL-Library.Word"
begin

unbundle bit_operations_syntax

section \<open>Hardware device handling of fftools/ffmpeg\_hw.c\<close>

text \<open>
  A shallow embedding of \<^verbatim>\<open>src/fftools/ffmpeg_hw.c\<close>. The two globals
  \<^verbatim>\<open>nb_hw_devices\<close> and \<^verbatim>\<open>hw_devices\<close> become one list that is passed in and
  returned: the list holds the entries \<^verbatim>\<open>hw_devices[0 .. nb_hw_devices - 1]\<close>, its length
  is \<^verbatim>\<open>nb_hw_devices\<close>. A C string is the list of its characters before the terminating
  NUL. A pointer that may be \<^verbatim>\<open>NULL\<close> is an \<open>option\<close>. The functions of libavutil,
  libavcodec, libavformat and libavfilter that the file calls are not part of it; their
  results are taken from environment records, one field for each function.
\<close>

subsection \<open>Error codes\<close>

text \<open>
  Modelled from the spec: its error classes (out of memory, invalid argument, no device
  type supported, more input wanted, end of stream) are the codes that the file writes as
  \<^verbatim>\<open>AVERROR(ENOMEM)\<close>, \<^verbatim>\<open>AVERROR(EINVAL)\<close>, \<^verbatim>\<open>AVERROR(ENOSYS)\<close>,
  \<^verbatim>\<open>AVERROR(EAGAIN)\<close> and \<^verbatim>\<open>AVERROR_EOF\<close>; the macros are those of libavutil/error.h,
  which is not among the sources. \<^verbatim>\<open>AVERROR(e)\<close> negates a POSIX error number, and
  \<^verbatim>\<open>AVERROR_EOF\<close> is the negated tag \<^verbatim>\<open>'E','O','F',' '\<close>. The error numbers are
  those of \<^verbatim>\<open><errno.h>\<close> on Linux; the theorems below use only that they are
  positive and pairwise different.
\<close>

definition ENOMEM :: int where "ENOMEM = 12"
definition EINVAL :: int where "EINVAL = 22"
definition ENOSYS :: int where "ENOSYS = 38"
definition EAGAIN :: int where "EAGAIN = 11"

definition AVERROR :: "int \<Rightarrow> int" where
  "AVERROR e = - e"

definition AVERROR_EOF :: int where
  "AVERROR_EOF = - (69 + 79 * 2 ^ 8 + 70 * 2 ^ 16 + 32 * 2 ^ 24)"

subsection \<open>Messages written with av\_log\<close>

text \<open>One constructor for each format string of the file, with the arguments it prints.\<close>

datatype log_msg =
    Invalid_device_specification string string
  | Device_creation_failed int
  | Decoder_does_not_support_any_device_type
  | No_suitable_hwaccel_device_found
  | Could_not_allocate_remix_frame
  | Could_not_allocate_remix_frame_buffer
  | Error_sending_packet_for_decoding
  | Error_remixing_audio

subsection \<open>Devices and the registry\<close>

text \<open>
  Modelled from the spec: the type of a device is an enumerated tag, \<^verbatim>\<open>enum
  AVHWDeviceType\<close> of libavutil/hwcontext.h. Only \<^verbatim>\<open>AV_HWDEVICE_TYPE_NONE\<close> is named in
  the file; every other type is a tag with its number.
\<close>

datatype AVHWDeviceType = AV_HWDEVICE_TYPE_NONE | AV_HWDEVICE_TYPE nat

text \<open>An \<^verbatim>\<open>AVBufferRef\<close> is an opaque handle, given by a number.\<close>

type_synonym AVBufferRef = nat

text \<open>
  Modelled from the spec: \<^verbatim>\<open>HWDevice\<close> is declared in fftools/ffmpeg.h, which is not
  among the sources. A device has a name, a type and a handle to its hardware context; these
  are the three fields that the file reads and writes.
\<close>

record HWDevice =
  name :: string
  type :: AVHWDeviceType
  device_ref :: "AVBufferRef option"

text \<open>
  \<^verbatim>\<open>hw_device_get_by_type\<close>: the loop keeps the first match in \<^verbatim>\<open>found\<close> and returns
  \<^verbatim>\<open>NULL\<close> as soon as a second one shows up.
\<close>

fun hw_device_get_by_type_loop ::
  "HWDevice list \<Rightarrow> AVHWDeviceType \<Rightarrow> HWDevice option \<Rightarrow> HWDevice option" where
  "hw_device_get_by_type_loop [] ty found = found"
| "hw_device_get_by_type_loop (d # ds) ty found =
     (if type d = ty
      then (if found \<noteq> None then None
            else hw_device_get_by_type_loop ds ty (Some d))
      else hw_device_get_by_type_loop ds ty found)"

definition hw_device_get_by_type :: "HWDevice list \<Rightarrow> AVHWDeviceType \<Rightarrow> HWDevice option" where
  "hw_device_get_by_type hw_devices ty = hw_device_get_by_type_loop hw_devices ty None"

text \<open>\<^verbatim>\<open>hw_device_get_by_name\<close>: the first entry whose name compares equal.\<close>

fun hw_device_get_by_name :: "HWDevice list \<Rightarrow> string \<Rightarrow> HWDevice option" where
  "hw_device_get_by_name [] nm = None"
| "hw_device_get_by_name (d # ds) nm =
     (if name d = nm then Some d else hw_device_get_by_name ds nm)"

subsection \<open>Strings\<close>

text \<open>\<^verbatim>\<open>strcspn(s, reject)\<close>: the length of the longest prefix of \<open>s\<close> free of the
  characters of \<open>reject\<close>.\<close>

definition strcspn :: "string \<Rightarrow> string \<Rightarrow> nat" where
  "strcspn s reject = length (takeWhile (\<lambda>c. c \<notin> set reject) s)"

text \<open>\<^verbatim>\<open>strchr(s, c)\<close>: the offset of the first \<open>c\<close> in \<open>s\<close>, or \<^verbatim>\<open>NULL\<close>.\<close>

definition strchr :: "string \<Rightarrow> char \<Rightarrow> nat option" where
  "strchr s c = (if c \<in> set s then Some (length (takeWhile (\<lambda>x. x \<noteq> c) s)) else None)"

text \<open>What \<^verbatim>\<open>%d\<close> prints for a number that is not negative: its decimal digits, the
  most significant first.\<close>

definition decimal_digit :: "nat \<Rightarrow> char" where
  "decimal_digit d = ''0123456789'' ! d"

fun string_of_nat :: "nat \<Rightarrow> string" where
  "string_of_nat n =
     (if n div 10 = 0 then [decimal_digit n]
      else string_of_nat (n div 10) @ [decimal_digit (n mod 10)])"

text \<open>\<^verbatim>\<open>snprintf(name, size, "%s%d", type_name, index)\<close> stores at most \<open>size - 1\<close>
  characters.\<close>

definition snprintf_sd :: "nat \<Rightarrow> string \<Rightarrow> nat \<Rightarrow> string" where
  "snprintf_sd n type_name index = take (n - 1) (type_name @ string_of_nat index)"

subsection \<open>The environment of device creation\<close>

text \<open>
  The places of \<^verbatim>\<open>hw_device_init_from_string\<close> and its helpers that allocate memory;
  each may fail on its own.
\<close>

datatype alloc_site =
    Strndup_type_name
  | Strndup_name
  | Malloc_default_name
  | Strndup_device
  | Reallocp_hw_devices
  | Mallocz_HWDevice

type_synonym AVDictionary = "(string \<times> string) list"

text \<open>
  The library functions called while a device is created. A function that returns an
  error code and stores its result through a pointer returns the pair of both.
  \<^verbatim>\<open>av_hwdevice_get_type_name\<close> is only called for a type that
  \<^verbatim>\<open>av_hwdevice_find_type_by_name\<close> returned, for which it returns a name.
\<close>

record hw_env =
  alloc_ok :: "alloc_site \<Rightarrow> bool"
  av_hwdevice_find_type_by_name :: "string \<Rightarrow> AVHWDeviceType"
  av_hwdevice_get_type_name :: "AVHWDeviceType \<Rightarrow> string"
  av_dict_parse_string :: "string \<Rightarrow> string \<Rightarrow> string \<Rightarrow> int \<times> AVDictionary option"
  av_hwdevice_ctx_create ::
    "AVHWDeviceType \<Rightarrow> string option \<Rightarrow> AVDictionary option \<Rightarrow> int \<times> AVBufferRef option"
  av_hwdevice_ctx_create_derived ::
    "AVHWDeviceType \<Rightarrow> AVBufferRef option \<Rightarrow> int \<times> AVBufferRef option"

text \<open>\<^verbatim>\<open>av_strndup(s, len)\<close>: a copy of the first \<open>len\<close> characters, or \<^verbatim>\<open>NULL\<close>.\<close>

definition av_strndup :: "hw_env \<Rightarrow> alloc_site \<Rightarrow> string \<Rightarrow> nat \<Rightarrow> string option" where
  "av_strndup env site s len = (if alloc_ok env site then Some (take len s) else None)"

subsection \<open>Adding a device\<close>

text \<open>
  \<^verbatim>\<open>hw_device_add\<close> grows the array by one entry and returns the new zeroed entry, which
  its callers fill in at once; \<open>d\<close> is what they store there. When
  \<^verbatim>\<open>av_reallocp_array\<close> fails the array is gone and \<^verbatim>\<open>nb_hw_devices\<close> is set to 0.
  When \<^verbatim>\<open>av_mallocz\<close> fails \<^verbatim>\<open>nb_hw_devices\<close> is not incremented.
\<close>

definition hw_device_add ::
  "hw_env \<Rightarrow> HWDevice list \<Rightarrow> HWDevice \<Rightarrow> HWDevice list \<times> HWDevice option" where
  "hw_device_add env hw_devices d =
     (if \<not> alloc_ok env Reallocp_hw_devices then ([], None)
      else if \<not> alloc_ok env Mallocz_HWDevice then (hw_devices, None)
      else (hw_devices @ [d], Some d))"

subsection \<open>Default names\<close>

text \<open>The loop of \<^verbatim>\<open>hw_device_default_name\<close>; it returns the value of \<^verbatim>\<open>index\<close> at
  its end.\<close>

function hw_device_default_name_loop ::
  "HWDevice list \<Rightarrow> string \<Rightarrow> nat \<Rightarrow> nat \<Rightarrow> nat" where
  "hw_device_default_name_loop hw_devices type_name index_limit index =
     (if index < index_limit
      then (if hw_device_get_by_name hw_devices
                 (snprintf_sd (length type_name + 4) type_name index) = None
            then index
            else hw_device_default_name_loop hw_devices type_name index_limit (index + 1))
      else index)"
  by pat_completeness auto
termination
  by (relation "measure (\<lambda>(hw_devices, type_name, index_limit, index). index_limit - index)")
     auto

definition hw_device_default_name ::
  "hw_env \<Rightarrow> HWDevice list \<Rightarrow> AVHWDeviceType \<Rightarrow> string option" where
  "hw_device_default_name env hw_devices ty =
     (let type_name = av_hwdevice_get_type_name env ty;
          index_limit = 1000;
          index_pos = length type_name
      in if \<not> alloc_ok env Malloc_default_name then None
         else let index = hw_device_default_name_loop hw_devices type_name index_limit 0
              in if index \<ge> index_limit then None
                 else Some (snprintf_sd (index_pos + 4) type_name index))"

subsection \<open>Creating a device from its specification\<close>

text \<open>
  What \<^verbatim>\<open>hw_device_init_from_string\<close> leaves behind: the value it returns, the messages
  it logs, the registry, and the device it stores through \<^verbatim>\<open>dev_out\<close>. The strings and
  the dictionary freed at the label \<^verbatim>\<open>done\<close> are local to the call.
\<close>

record init_result =
  ret :: int
  logged :: "log_msg list"
  devices :: "HWDevice list"
  dev_out :: "HWDevice option"

text \<open>The labels \<^verbatim>\<open>invalid\<close> and \<^verbatim>\<open>fail\<close>, both of which go on to \<^verbatim>\<open>done\<close>.\<close>

definition init_invalid :: "HWDevice list \<Rightarrow> string \<Rightarrow> string \<Rightarrow> init_result" where
  "init_invalid hw_devices arg errmsg =
     \<lparr>ret = AVERROR EINVAL, logged = [Invalid_device_specification arg errmsg],
      devices = hw_devices, dev_out = None\<rparr>"

definition init_fail :: "HWDevice list \<Rightarrow> int \<Rightarrow> init_result" where
  "init_fail hw_devices err =
     \<lparr>ret = err, logged = [Device_creation_failed err],
      devices = hw_devices, dev_out = None\<rparr>"

text \<open>A block of the function either jumps to one of the two labels or falls through.\<close>

datatype 'a goto = Goto_fail int | Goto_invalid string | Fallthrough 'a

text \<open>
  The block that settles the name: an explicit one after \<^verbatim>\<open>=\<close>, which must be new,
  or a default one. It yields the name and the rest \<open>p\<close> of the specification.
\<close>

definition init_name ::
  "hw_env \<Rightarrow> HWDevice list \<Rightarrow> AVHWDeviceType \<Rightarrow> string \<Rightarrow> (string \<times> string) goto" where
  "init_name env hw_devices ty p =
     (if p \<noteq> [] \<and> hd p = CHR ''=''
      then (let k = strcspn (tl p) '':@,'' in
            case av_strndup env Strndup_name (tl p) k of
              None \<Rightarrow> Goto_fail (AVERROR ENOMEM)
            | Some nm \<Rightarrow>
                if hw_device_get_by_name hw_devices nm \<noteq> None
                then Goto_invalid ''named device already exists''
                else Fallthrough (nm, drop (1 + k) p))
      else (case hw_device_default_name env hw_devices ty of
              None \<Rightarrow> Goto_fail (AVERROR ENOMEM)
            | Some nm \<Rightarrow> Fallthrough (nm, p)))"

text \<open>A call of \<^verbatim>\<open>av_hwdevice_ctx_create\<close> or of its derived variant, and the test
  \<^verbatim>\<open>err < 0\<close> after it.\<close>

definition init_created :: "int \<times> AVBufferRef option \<Rightarrow> AVBufferRef option goto" where
  "init_created r = (if fst r < 0 then Goto_fail (fst r) else Fallthrough (snd r))"

text \<open>
  The dispatch on the character at \<open>p\<close>: the end of the string, \<^verbatim>\<open>:\<close> with a device
  and options, \<^verbatim>\<open>@\<close> with a source device, \<^verbatim>\<open>,\<close> with options only, or anything else.
\<close>

definition init_create ::
  "hw_env \<Rightarrow> HWDevice list \<Rightarrow> AVHWDeviceType \<Rightarrow> string \<Rightarrow> AVBufferRef option goto" where
  "init_create env hw_devices ty p =
     (case p of
        [] \<Rightarrow> init_created (av_hwdevice_ctx_create env ty None None)
      | c # p1 \<Rightarrow>
          if c = CHR '':'' then
            (case strchr p1 (CHR '','') of
               Some off \<Rightarrow>
                 (case (if 0 < off then map_option Some (av_strndup env Strndup_device p1 off)
                        else Some None) of
                    None \<Rightarrow> Goto_fail (AVERROR ENOMEM)
                  | Some device \<Rightarrow>
                      (let (err, options) =
                             av_dict_parse_string env (drop (off + 1) p1) ''='' '','' in
                       if err < 0 then Goto_invalid ''failed to parse options''
                       else init_created (av_hwdevice_ctx_create env ty device options)))
             | None \<Rightarrow>
                 init_created
                   (av_hwdevice_ctx_create env ty (if p1 \<noteq> [] then Some p1 else None) None))
          else if c = CHR ''@'' then
            (case hw_device_get_by_name hw_devices p1 of
               None \<Rightarrow> Goto_invalid ''invalid source device name''
             | Some src \<Rightarrow>
                 init_created (av_hwdevice_ctx_create_derived env ty (device_ref src)))
          else if c = CHR '','' then
            (let (err, options) = av_dict_parse_string env p1 ''='' '','' in
             if err < 0 then Goto_invalid ''failed to parse options''
             else init_created (av_hwdevice_ctx_create env ty None options))
          else Goto_invalid ''parse error'')"

definition hw_device_init_from_string ::
  "hw_env \<Rightarrow> HWDevice list \<Rightarrow> string \<Rightarrow> init_result" where
  "hw_device_init_from_string env hw_devices arg =
     (let k = strcspn arg '':=@''; p = drop k arg in
      case av_strndup env Strndup_type_name arg k of
        None \<Rightarrow> init_fail hw_devices (AVERROR ENOMEM)
      | Some type_name \<Rightarrow>
          (let ty = av_hwdevice_find_type_by_name env type_name in
           if ty = AV_HWDEVICE_TYPE_NONE
           then init_invalid hw_devices arg ''unknown device type''
           else
             (case init_name env hw_devices ty p of
                Goto_fail err \<Rightarrow> init_fail hw_devices err
              | Goto_invalid errmsg \<Rightarrow> init_invalid hw_devices arg errmsg
              | Fallthrough (nm, p') \<Rightarrow>
                  (case init_create env hw_devices ty p' of
                     Goto_fail err \<Rightarrow> init_fail hw_devices err
                   | Goto_invalid errmsg \<Rightarrow> init_invalid hw_devices arg errmsg
                   | Fallthrough dref \<Rightarrow>
                       (case hw_device_add env hw_devices
                               \<lparr>name = nm, type = ty, device_ref = dref\<rparr> of
                          (hw_devices', None) \<Rightarrow> init_fail hw_devices' (AVERROR ENOMEM)
                        | (hw_devices', Some dev) \<Rightarrow>
                            \<lparr>ret = 0, logged = [], devices = hw_devices',
                             dev_out = Some dev\<rparr>)))))"

declare hw_device_default_name_loop.simps [simp del]
declare string_of_nat.simps [simp del]

subsection \<open>Codecs and their hardware configurations\<close>

text \<open>
  Modelled from the spec: a configuration binds the hardware through a device context or
  through a frame context, and its method mask has one bit for each; the flags are those of
  libavcodec/codec.h, which is not among the sources.
\<close>

definition AV_CODEC_HW_CONFIG_METHOD_HW_DEVICE_CTX :: int where
  "AV_CODEC_HW_CONFIG_METHOD_HW_DEVICE_CTX = 1"

definition AV_CODEC_HW_CONFIG_METHOD_HW_FRAMES_CTX :: int where
  "AV_CODEC_HW_CONFIG_METHOD_HW_FRAMES_CTX = 2"

record AVCodecHWConfig =
  pix_fmt :: int
  methods :: int
  device_type :: AVHWDeviceType

text \<open>
  A codec is given by its table of hardware configurations;
  \<^verbatim>\<open>avcodec_get_hw_config(codec, i)\<close> is entry \<open>i\<close> of the table, or \<^verbatim>\<open>NULL\<close> past its end.
\<close>

record AVCodec =
  hw_configs :: "AVCodecHWConfig list"

definition avcodec_get_hw_config :: "AVCodec \<Rightarrow> nat \<Rightarrow> AVCodecHWConfig option" where
  "avcodec_get_hw_config codec i =
     (if i < length (hw_configs codec) then Some (hw_configs codec ! i) else None)"

function hw_device_match_by_codec_loop ::
  "HWDevice list \<Rightarrow> AVCodec \<Rightarrow> nat \<Rightarrow> HWDevice option" where
  "hw_device_match_by_codec_loop hw_devices codec i =
     (case avcodec_get_hw_config codec i of
        None \<Rightarrow> None
      | Some config \<Rightarrow>
          if methods config AND AV_CODEC_HW_CONFIG_METHOD_HW_DEVICE_CTX = 0
          then hw_device_match_by_codec_loop hw_devices codec (i + 1)
          else (case hw_device_get_by_type hw_devices (device_type config) of
                  Some dev \<Rightarrow> Some dev
                | None \<Rightarrow> hw_device_match_by_codec_loop hw_devices codec (i + 1)))"
  by pat_completeness auto
termination
  by (relation "measure (\<lambda>(hw_devices, codec, i). length (hw_configs codec) - i)")
     (auto simp: avcodec_get_hw_config_def split: if_splits)

definition hw_device_match_by_codec :: "HWDevice list \<Rightarrow> AVCodec \<Rightarrow> HWDevice option" where
  "hw_device_match_by_codec hw_devices codec = hw_device_match_by_codec_loop hw_devices codec 0"

text \<open>What this file reads and writes of an \<^verbatim>\<open>AVCodecContext\<close>: its codec, and the
  contexts that the library binds to it.\<close>

record AVCodecContext =
  codec :: AVCodec
  bound_device_ctx :: "AVBufferRef option"
  bound_frames_ctx :: "AVBufferRef option"

subsection \<open>Setting up a decoder\<close>

text \<open>
  Modelled from the spec: a stream either declares no request for hardware acceleration or
  asks for some kind of it. \<^verbatim>\<open>enum HWAccelID\<close> is declared in fftools/ffmpeg.h, which is
  not among the sources; the file names only \<^verbatim>\<open>HWACCEL_NONE\<close>.
\<close>

datatype HWAccelID = HWACCEL_NONE | HWACCEL nat

text \<open>The fields of an \<^verbatim>\<open>InputStream\<close>, also of fftools/ffmpeg.h, that the file uses;
  \<open>st_index\<close> is \<^verbatim>\<open>ist->st->index\<close>.\<close>

record InputStream =
  hwaccel_id :: HWAccelID
  hwaccel_device_type :: AVHWDeviceType
  dec_ctx :: AVCodecContext
  hwaccel_device_ref :: "AVBufferRef option"
  st_index :: int

record decode_env =
  avcodec_set_hw_device_ctx ::
    "AVCodecContext \<Rightarrow> AVBufferRef option \<Rightarrow> int \<times> AVCodecContext"
  av_buffer_ref :: "AVBufferRef option \<Rightarrow> AVBufferRef option"

text \<open>
  The loop of \<^verbatim>\<open>hw_device_setup_for_decode\<close>. It ends either with the \<^verbatim>\<open>return\<close> at
  the end of the table, which gives the value returned and the message logged, or with the
  \<^verbatim>\<open>break\<close>, which gives the value of \<^verbatim>\<open>dev\<close>.
\<close>

function hw_device_setup_for_decode_loop ::
  "HWDevice list \<Rightarrow> InputStream \<Rightarrow> nat \<Rightarrow> (int \<times> log_msg list) + HWDevice option" where
  "hw_device_setup_for_decode_loop hw_devices ist i =
     (case avcodec_get_hw_config (codec (dec_ctx ist)) i of
        None \<Rightarrow> Inl (AVERROR ENOSYS, [Decoder_does_not_support_any_device_type])
      | Some config \<Rightarrow>
          if methods config AND AV_CODEC_HW_CONFIG_METHOD_HW_DEVICE_CTX = 0
          then hw_device_setup_for_decode_loop hw_devices ist (i + 1)
          else if device_type config = hwaccel_device_type ist
          then (case hw_device_get_by_type hw_devices (device_type config) of
                  Some dev \<Rightarrow> Inr (Some dev)
                | None \<Rightarrow> hw_device_setup_for_decode_loop hw_devices ist (i + 1))
          else hw_device_setup_for_decode_loop hw_devices ist (i + 1))"
  by pat_completeness auto
termination
  by (relation "measure (\<lambda>(hw_devices, ist, i). length (hw_configs (codec (dec_ctx ist))) - i)")
     (auto simp: avcodec_get_hw_config_def split: if_splits)

text \<open>The function returns its value, the messages it logs and the input stream.\<close>

definition hw_device_setup_for_decode ::
  "decode_env \<Rightarrow> HWDevice list \<Rightarrow> InputStream \<Rightarrow> int \<times> log_msg list \<times> InputStream" where
  "hw_device_setup_for_decode env hw_devices ist =
     (if hwaccel_id ist = HWACCEL_NONE then (0, [], ist)
      else
        (case hw_device_setup_for_decode_loop hw_devices ist 0 of
           Inl (err, msgs) \<Rightarrow> (err, msgs, ist)
         | Inr None \<Rightarrow> (AVERROR EINVAL, [No_suitable_hwaccel_device_found], ist)
         | Inr (Some dev) \<Rightarrow>
             (let (err, ctx) = avcodec_set_hw_device_ctx env (dec_ctx ist) (device_ref dev);
                  ist = ist\<lparr>dec_ctx := ctx\<rparr>
              in if err < 0 then (err, [], ist)
                 else
                   (let ist = ist\<lparr>hwaccel_device_ref := av_buffer_ref env (device_ref dev)\<rparr>
                    in if hwaccel_device_ref ist = None then (AVERROR ENOMEM, [], ist)
                       else (0, [], ist)))))"

subsection \<open>Setting up an encoder\<close>

record OutputStream =
  enc_ctx :: AVCodecContext
  hw_frames_ctx :: "AVBufferRef option"

text \<open>
  \<^verbatim>\<open>avcodec_get_hw_frames_parameters\<close> returns an error code and writes through its last
  argument: it is given what \<^verbatim>\<open>ost->hw_frames_ctx\<close> holds and returns what it holds
  afterwards.
\<close>

record encode_env =
  avcodec_get_hw_frames_parameters ::
    "AVCodecContext \<Rightarrow> AVBufferRef option \<Rightarrow> int \<Rightarrow> AVBufferRef option
       \<Rightarrow> int \<times> AVBufferRef option"
  avcodec_set_hw_frames_ctx :: "AVCodecContext \<Rightarrow> AVBufferRef \<Rightarrow> int \<times> AVCodecContext"

function set_hwframe_ctx_loop ::
  "encode_env \<Rightarrow> OutputStream \<Rightarrow> AVCodec \<Rightarrow> AVCodecContext \<Rightarrow> HWDevice \<Rightarrow> nat
     \<Rightarrow> OutputStream" where
  "set_hwframe_ctx_loop env ost cdc ectx dev i =
     (case avcodec_get_hw_config cdc i of
        None \<Rightarrow> ost
      | Some config \<Rightarrow>
          if methods config AND AV_CODEC_HW_CONFIG_METHOD_HW_FRAMES_CTX = 0
          then set_hwframe_ctx_loop env ost cdc ectx dev (i + 1)
          else if device_type config \<noteq> type dev
          then set_hwframe_ctx_loop env ost cdc ectx dev (i + 1)
          else (let (err, frames) =
                      avcodec_get_hw_frames_parameters env ectx (device_ref dev)
                        (pix_fmt config) (hw_frames_ctx ost)
                in ost\<lparr>hw_frames_ctx := frames\<rparr>))"
  by pat_completeness auto
termination
  by (relation "measure (\<lambda>(env, ost, cdc, ectx, dev, i). length (hw_configs cdc) - i)")
     (auto simp: avcodec_get_hw_config_def split: if_splits)

definition set_hwframe_ctx ::
  "encode_env \<Rightarrow> OutputStream \<Rightarrow> AVCodec \<Rightarrow> AVCodecContext \<Rightarrow> HWDevice \<Rightarrow> OutputStream" where
  "set_hwframe_ctx env ost cdc ectx dev = set_hwframe_ctx_loop env ost cdc ectx dev 0"

text \<open>
  \<^verbatim>\<open>hw_device_setup_for_encode\<close> returns its value and the output stream; the last
  component lists the buffers that it released with \<^verbatim>\<open>av_buffer_unref\<close>.
\<close>

definition hw_device_setup_for_encode ::
  "encode_env \<Rightarrow> HWDevice list \<Rightarrow> OutputStream \<Rightarrow> int \<times> OutputStream \<times> AVBufferRef list" where
  "hw_device_setup_for_encode env hw_devices ost =
     (case hw_device_match_by_codec hw_devices (codec (enc_ctx ost)) of
        None \<Rightarrow> (0, ost, [])
      | Some dev \<Rightarrow>
          (let ost = set_hwframe_ctx env ost (codec (enc_ctx ost)) (enc_ctx ost) dev in
           case hw_frames_ctx ost of
             None \<Rightarrow> (0, ost, [])
           | Some frames \<Rightarrow>
               (let (err, ctx) = avcodec_set_hw_frames_ctx env (enc_ctx ost) frames;
                    ost = ost\<lparr>enc_ctx := ctx\<rparr>
                in if err < 0 then (err, ost\<lparr>hw_frames_ctx := None\<rparr>, [frames])
                   else (0, ost, []))))"

subsection \<open>Setting up a filter graph\<close>

text \<open>
  Of a filter the file reads the name of its definition (\<^verbatim>\<open>filter->filter->name\<close>) and the
  media types of its input links; its options are set by \<^verbatim>\<open>av_opt_set\<close>.
\<close>

record AVFilterContext =
  filter_name :: string
  inputs :: "int list"
  filter_options :: "(string \<times> string) list"

record AVFilterGraph =
  sink :: AVFilterContext
  filters :: "AVFilterContext list"

record FilterGraph =
  graph :: AVFilterGraph

record filter_env =
  avcodec_find_decoder :: "int \<Rightarrow> AVCodec option"
  av_opt_set :: "AVFilterContext \<Rightarrow> string \<Rightarrow> string \<Rightarrow> int \<times> AVFilterContext"

text \<open>
  The loop over \<^verbatim>\<open>fg->graph->filters\<close>: it returns at the first \<^verbatim>\<open>av_opt_set\<close> that
  fails, and yields the value returned together with the filters as they are then.
\<close>

fun hw_device_setup_for_filter_loop ::
  "filter_env \<Rightarrow> HWDevice \<Rightarrow> AVFilterContext list \<Rightarrow> int \<times> AVFilterContext list" where
  "hw_device_setup_for_filter_loop env dev [] = (0, [])"
| "hw_device_setup_for_filter_loop env dev (f # fs) =
     (if filter_name f = ''hwupload''
      then (let (err, f') = av_opt_set env f ''device'' (name dev) in
            if err < 0 then (err, f' # fs)
            else (let (r, fs') = hw_device_setup_for_filter_loop env dev fs in (r, f' # fs')))
      else (let (r, fs') = hw_device_setup_for_filter_loop env dev fs in (r, f # fs')))"

definition hw_device_setup_for_filter ::
  "filter_env \<Rightarrow> HWDevice list \<Rightarrow> FilterGraph \<Rightarrow> int \<times> AVFilterContext list" where
  "hw_device_setup_for_filter env hw_devices fg =
     (if length (inputs (sink (graph fg))) = 0 then (0, filters (graph fg))
      else
        (case avcodec_find_decoder env (hd (inputs (sink (graph fg)))) of
           None \<Rightarrow> (0, filters (graph fg))
         | Some cdc \<Rightarrow>
             (case hw_device_match_by_codec hw_devices cdc of
                None \<Rightarrow> (0, filters (graph fg))
              | Some dev \<Rightarrow> hw_device_setup_for_filter_loop env dev (filters (graph fg)))))"

declare hw_device_match_by_codec_loop.simps [simp del]
declare hw_device_setup_for_decode_loop.simps [simp del]
declare set_hwframe_ctx_loop.simps [simp del]

subsection \<open>Audio frames\<close>

text \<open>
  Where the C code would leave defined behaviour: it follows a \<^verbatim>\<open>NULL\<close> pointer, or it
  reads or writes outside an array or a buffer.
\<close>

datatype fault = Null_pointer | Out_of_bounds

type_synonym plane = "8 word list"

text \<open>
  What the file uses of an \<^verbatim>\<open>AVFrame\<close>. \<open>data\<close> lists the planes \<^verbatim>\<open>data[0]\<close>,
  \<^verbatim>\<open>data[1]\<close>, ... that are allocated, each with its bytes; the entries of \<^verbatim>\<open>data\<close> after
  them are \<^verbatim>\<open>NULL\<close>. \<open>linesize\<close> is \<^verbatim>\<open>linesize[0]\<close>. \<open>pts\<close> and \<open>pkt_dts\<close> are the
  timestamps among the properties of the frame.
\<close>

record AVFrame =
  data :: "plane list"
  linesize :: nat
  channel_layout :: nat
  sample_rate :: int
  format :: int
  nb_samples :: int
  pts :: int
  pkt_dts :: int

text \<open>The length of the array \<^verbatim>\<open>data\<close>, from libavutil/frame.h.\<close>

definition AV_NUM_DATA_POINTERS :: int where
  "AV_NUM_DATA_POINTERS = 8"

text \<open>
  \<^verbatim>\<open>av_frame_alloc\<close> returns a fresh frame or \<^verbatim>\<open>NULL\<close>. \<^verbatim>\<open>av_frame_get_buffer\<close> returns
  an error code and, through the frame, the planes it allocated and their line size.
\<close>

record frame_env =
  av_frame_alloc :: "AVFrame option"
  av_frame_get_buffer :: "AVFrame \<Rightarrow> int \<Rightarrow> int \<times> plane list \<times> nat"

text \<open>
  Modelled from the spec: \<^verbatim>\<open>av_frame_copy_props\<close> of libavutil is not part of the file.
  It copies the stream-level properties of the source, the timestamps, onto the destination
  and leaves the buffers of the destination alone.
\<close>

definition av_frame_copy_props :: "AVFrame \<Rightarrow> AVFrame \<Rightarrow> AVFrame" where
  "av_frame_copy_props dst src = dst\<lparr>pts := pts src, pkt_dts := pkt_dts src\<rparr>"

text \<open>\<open>f->data[k]\<close>, the plane that the pointer refers to.\<close>

definition plane_at :: "AVFrame \<Rightarrow> int \<Rightarrow> fault + plane" where
  "plane_at f k =
     (if k < 0 \<or> AV_NUM_DATA_POINTERS \<le> k then Inl Out_of_bounds
      else if nat k < length (data f) then Inr (data f ! nat k)
      else Inl Null_pointer)"

text \<open>\<^verbatim>\<open>memcpy(dst, src, n)\<close> on two buffers: the bytes of \<open>dst\<close> afterwards.\<close>

definition memcpy :: "plane \<Rightarrow> plane \<Rightarrow> nat \<Rightarrow> fault + plane" where
  "memcpy dst src n =
     (if n \<le> length src \<and> n \<le> length dst then Inr (take n src @ drop n dst)
      else Inl Out_of_bounds)"

text \<open>The copying loop of \<^verbatim>\<open>remix_audio\<close>, from the value \<open>i\<close> of its counter on.\<close>

function remix_audio_loop ::
  "AVFrame \<Rightarrow> AVFrame \<Rightarrow> int list \<Rightarrow> int \<Rightarrow> nat \<Rightarrow> fault + AVFrame" where
  "remix_audio_loop remix_frame frame remix_map remix_size i =
     (if int i < remix_size
      then (if length remix_map \<le> i then Inl Out_of_bounds
            else
              (case plane_at frame (remix_map ! i) of
                 Inl e \<Rightarrow> Inl e
               | Inr src \<Rightarrow>
                   (case plane_at remix_frame (int i) of
                      Inl e \<Rightarrow> Inl e
                    | Inr dst \<Rightarrow>
                        (case memcpy dst src (linesize remix_frame) of
                           Inl e \<Rightarrow> Inl e
                         | Inr dst' \<Rightarrow>
                             remix_audio_loop
                               (remix_frame\<lparr>data := (data remix_frame)[i := dst']\<rparr>)
                               frame remix_map remix_size (i + 1)))))
      else Inr remix_frame)"
  by pat_completeness auto
termination
  by (relation "measure (\<lambda>(remix_frame, frame, remix_map, remix_size, i).
                  nat (remix_size - int i))") auto

text \<open>
  \<^verbatim>\<open>remix_audio\<close> gets a pointer to a frame. It returns its value, the messages it logs
  and what the frame holds afterwards.
\<close>

definition remix_audio ::
  "frame_env \<Rightarrow> AVFrame option \<Rightarrow> int list \<Rightarrow> int
     \<Rightarrow> fault + (int \<times> log_msg list \<times> AVFrame option)" where
  "remix_audio env frame remix_map remix_size =
     (case av_frame_alloc env of
        None \<Rightarrow> Inr (AVERROR ENOMEM, [Could_not_allocate_remix_frame], frame)
      | Some remix_frame \<Rightarrow>
          (case frame of
             None \<Rightarrow> Inl Null_pointer
           | Some fr \<Rightarrow>
               (let remix_frame =
                      remix_frame\<lparr>channel_layout := channel_layout fr,
                                  sample_rate := sample_rate fr,
                                  format := format fr,
                                  nb_samples := nb_samples fr\<rparr>;
                    (err, planes, ls) = av_frame_get_buffer env remix_frame 0
                in if err < 0
                   then Inr (AVERROR ENOMEM, [Could_not_allocate_remix_frame_buffer], frame)
                   else
                     (case remix_audio_loop (remix_frame\<lparr>data := planes, linesize := ls\<rparr>)
                             fr remix_map remix_size 0 of
                        Inl e \<Rightarrow> Inl e
                      | Inr remix_frame \<Rightarrow>
                          Inr (0, [], Some (av_frame_copy_props remix_frame fr))))))"

subsection \<open>The loop that reads, decodes and remixes\<close>

record AVPacket =
  stream_index :: int
  pkt_data :: nat

text \<open>The calls that \<^verbatim>\<open>apply_audio_remix\<close> makes, with the handles they get and, for the
  library functions, the values they return.\<close>

datatype call =
    Call_av_read_frame AVPacket int
  | Call_avcodec_send_packet AVPacket int
  | Call_avcodec_receive_frame "AVFrame option" int
  | Call_remix_audio "AVFrame option"
  | Call_av_packet_unref AVPacket
  | Call_av_frame_free "AVFrame option"

text \<open>
  The demuxer and the decoder work on a state \<open>'w\<close> of their own. \<^verbatim>\<open>av_read_frame\<close>
  returns its value and the packet it stores in \<^verbatim>\<open>ist->pkt\<close>;
  \<^verbatim>\<open>avcodec_receive_frame\<close> gets the frame handle and returns its value and what the
  frame holds afterwards.
\<close>

record 'w remix_env =
  av_read_frame :: "'w \<Rightarrow> int \<times> AVPacket \<times> 'w"
  avcodec_send_packet :: "'w \<Rightarrow> AVPacket \<Rightarrow> int \<times> 'w"
  avcodec_receive_frame :: "'w \<Rightarrow> AVFrame option \<Rightarrow> int \<times> AVFrame option \<times> 'w"
  frame_lib :: frame_env

text \<open>
  The state of a run: the state of the libraries, the local variable \<^verbatim>\<open>frame\<close>
  (\<open>None\<close> when it is \<^verbatim>\<open>NULL\<close>, else the frame it points to), the calls made and the
  messages logged so far.
\<close>

record 'w remix_state =
  world :: 'w
  frame_handle :: "AVFrame option"
  calls :: "call list"
  logs :: "log_msg list"

text \<open>
  Either loop may go on for ever, so both run on fuel: one unit for each iteration. A run
  ends with a fault, with the value of \<^verbatim>\<open>ret\<close> (written \<open>r\<close> here), or, when the
  fuel is used up, with \<open>None\<close>. The inner loop: receive a frame and remix it, until either fails.
\<close>

fun receive_frames ::
  "nat \<Rightarrow> 'w remix_env \<Rightarrow> int list \<Rightarrow> int \<Rightarrow> 'w remix_state
     \<Rightarrow> (fault + int) option \<times> 'w remix_state" where
  "receive_frames 0 env remix_map remix_size s = (None, s)"
| "receive_frames (Suc fuel) env remix_map remix_size s =
     (let (r, written, w) = avcodec_receive_frame env (world s) (frame_handle s);
          s1 = s\<lparr>world := w,
                 frame_handle := (if frame_handle s = None then None else written),
                 calls := calls s @ [Call_avcodec_receive_frame (frame_handle s) r]\<rparr>
      in if r \<ge> 0
         then
           (let s2 = s1\<lparr>calls := calls s1 @ [Call_remix_audio (frame_handle s1)]\<rparr> in
            case remix_audio (frame_lib env) (frame_handle s2) remix_map remix_size of
              Inl e \<Rightarrow> (Some (Inl e), s2)
            | Inr (r', msgs, fr) \<Rightarrow>
                (let s3 = s2\<lparr>frame_handle := fr, logs := logs s2 @ msgs\<rparr> in
                 if r' < 0
                 then (Some (Inr r'), s3\<lparr>logs := logs s3 @ [Error_remixing_audio]\<rparr>)
                 else receive_frames fuel env remix_map remix_size s3))
         else (Some (Inr r), s1))"

text \<open>
  The outer loop. A packet of another stream is released at the end of the body. For a
  packet of the stream, \<^verbatim>\<open>continue\<close> goes back to reading and \<^verbatim>\<open>break\<close> leaves the
  loop; the body runs to its end only when \<^verbatim>\<open>ret\<close> is not negative after the inner
  loop.
\<close>

fun read_frames ::
  "nat \<Rightarrow> 'w remix_env \<Rightarrow> int \<Rightarrow> int list \<Rightarrow> int \<Rightarrow> 'w remix_state
     \<Rightarrow> (fault + int) option \<times> 'w remix_state" where
  "read_frames 0 env index remix_map remix_size s = (None, s)"
| "read_frames (Suc fuel) env index remix_map remix_size s =
     (let (r, pkt, w) = av_read_frame env (world s);
          s1 = s\<lparr>world := w, calls := calls s @ [Call_av_read_frame pkt r]\<rparr>
      in if r \<ge> 0
         then
           (if stream_index pkt = index
            then
              (let (r', w') = avcodec_send_packet env (world s1) pkt;
                   s2 = s1\<lparr>world := w', calls := calls s1 @ [Call_avcodec_send_packet pkt r']\<rparr>
               in if r' < 0
                  then (Some (Inr r'),
                        s2\<lparr>logs := logs s2 @ [Error_sending_packet_for_decoding]\<rparr>)
                  else
                    (case receive_frames fuel env remix_map remix_size s2 of
                       (None, s3) \<Rightarrow> (None, s3)
                     | (Some (Inl e), s3) \<Rightarrow> (Some (Inl e), s3)
                     | (Some (Inr r''), s3) \<Rightarrow>
                         if r'' = AVERROR EAGAIN \<or> r'' = AVERROR_EOF
                         then read_frames fuel env index remix_map remix_size s3
                         else if r'' < 0 then (Some (Inr r''), s3)
                         else read_frames fuel env index remix_map remix_size
                                (s3\<lparr>calls := calls s3 @ [Call_av_packet_unref pkt]\<rparr>)))
            else read_frames fuel env index remix_map remix_size
                   (s1\<lparr>calls := calls s1 @ [Call_av_packet_unref pkt]\<rparr>))
         else (Some (Inr r), s1))"

text \<open>\<^verbatim>\<open>apply_audio_remix\<close>: \<^verbatim>\<open>frame\<close> starts as \<^verbatim>\<open>NULL\<close>, and is freed after the
  loop, which sets it to \<^verbatim>\<open>NULL\<close>.\<close>

definition apply_audio_remix ::
  "nat \<Rightarrow> 'w remix_env \<Rightarrow> InputStream \<Rightarrow> int list \<Rightarrow> int \<Rightarrow> 'w
     \<Rightarrow> (fault + int) option \<times> 'w remix_state" where
  "apply_audio_remix fuel env ist remix_map remix_size w =
     (case read_frames fuel env (st_index ist) remix_map remix_size
             \<lparr>world = w, frame_handle = None, calls = [], logs = []\<rparr> of
        (Some (Inr r), s) \<Rightarrow>
          (Some (Inr r),
           s\<lparr>frame_handle := None, calls := calls s @ [Call_av_frame_free (frame_handle s)]\<rparr>)
      | (None, s) \<Rightarrow> (None, s)
      | (Some (Inl e), s) \<Rightarrow> (Some (Inl e), s))"

declare remix_audio_loop.simps [simp del]

section \<open>Notions used in the statements\<close>

subsection \<open>Specifications with a name\<close>

text \<open>
  A specification names its device when an \<^verbatim>\<open>=\<close> follows the type, which is the test
  \<^verbatim>\<open>*p == '='\<close> of the function.
\<close>

definition explicit_name :: "string \<Rightarrow> bool" where
  "explicit_name arg =
     (let p = drop (strcspn arg '':=@'') arg in p \<noteq> [] \<and> hd p = CHR ''='')"

subsection \<open>Reaching the registration\<close>

text \<open>
  A call of \<open>hw_device_init_from_string\<close> reaches \<open>hw_device_add\<close> when nothing before it
  jumps to a label: the type name is copied and known, the block that settles the name
  falls through, and so does the block that creates the device context.
\<close>

definition reaches_hw_device_add :: "hw_env \<Rightarrow> HWDevice list \<Rightarrow> string \<Rightarrow> bool" where
  "reaches_hw_device_add env hw_devices arg =
     (let k = strcspn arg '':=@''; p = drop k arg in
      case av_strndup env Strndup_type_name arg k of
        None \<Rightarrow> False
      | Some type_name \<Rightarrow>
          (let ty = av_hwdevice_find_type_by_name env type_name in
           ty \<noteq> AV_HWDEVICE_TYPE_NONE \<and>
           (case init_name env hw_devices ty p of
              Fallthrough (nm, p') \<Rightarrow>
                (case init_create env hw_devices ty p' of
                   Fallthrough dref \<Rightarrow> True
                 | _ \<Rightarrow> False)
            | _ \<Rightarrow> False)))"

subsection \<open>What setting the filters amounts to\<close>

text \<open>
  Setting the option \<^verbatim>\<open>device\<close> to the name of \<open>dev\<close> fails on a filter when the
  filter is an \<^verbatim>\<open>hwupload\<close> filter and \<^verbatim>\<open>av_opt_set\<close> returns a negative value for it;
  a filter with the option set is what \<^verbatim>\<open>av_opt_set\<close> makes of an \<^verbatim>\<open>hwupload\<close> filter,
  and any other filter as it is.
\<close>

definition hwupload_device_fails :: "filter_env \<Rightarrow> HWDevice \<Rightarrow> AVFilterContext \<Rightarrow> bool" where
  "hwupload_device_fails env dev f =
     (filter_name f = ''hwupload'' \<and> fst (av_opt_set env f ''device'' (name dev)) < 0)"

definition hwupload_device_set ::
  "filter_env \<Rightarrow> HWDevice \<Rightarrow> AVFilterContext \<Rightarrow> AVFilterContext" where
  "hwupload_device_set env dev f =
     (if filter_name f = ''hwupload'' then snd (av_opt_set env f ''device'' (name dev)) else f)"

subsection \<open>Handles that are null\<close>

text \<open>A call is made on a null frame handle when it is a call on a frame and the handle it
  gets is \<^verbatim>\<open>NULL\<close>; calls on packets get no frame.\<close>

fun null_handle :: "call \<Rightarrow> bool" where
  "null_handle (Call_avcodec_receive_frame fr r) = (fr = None)"
| "null_handle (Call_remix_audio fr) = (fr = None)"
| "null_handle (Call_av_frame_free fr) = (fr = None)"
| "null_handle c = True"

section \<open>Inputs to run the functions on\<close>

subsection \<open>An environment to run the functions in\<close>

text \<open>
  A runtime that knows the one device type \<^verbatim>\<open>cuda\<close>, in which every allocation and every
  device creation succeeds, the same runtime with \<^verbatim>\<open>av_reallocp_array\<close> failing, and a
  device of another type.
\<close>

definition example_env :: hw_env where
  "example_env =
     \<lparr>alloc_ok = (\<lambda>site. True),
      av_hwdevice_find_type_by_name =
        (\<lambda>s. if s = ''cuda'' then AV_HWDEVICE_TYPE 2 else AV_HWDEVICE_TYPE_NONE),
      av_hwdevice_get_type_name = (\<lambda>ty. ''cuda''),
      av_dict_parse_string = (\<lambda>s key_val_sep pairs_sep. (0, Some [])),
      av_hwdevice_ctx_create = (\<lambda>ty device options. (0, Some 1)),
      av_hwdevice_ctx_create_derived = (\<lambda>ty src. (0, Some 2))\<rparr>"

definition example_env_no_realloc :: hw_env where
  "example_env_no_realloc =
     example_env\<lparr>alloc_ok := (\<lambda>site. site \<noteq> Reallocp_hw_devices)\<rparr>"

definition example_device :: HWDevice where
  "example_device = \<lparr>name = ''vaapi0'', type = AV_HWDEVICE_TYPE 3, device_ref = Some 0\<rparr>"

text \<open>The same runtime with \<^verbatim>\<open>av_mallocz\<close> failing.\<close>

definition example_env_no_mallocz :: hw_env where
  "example_env_no_mallocz =
     example_env\<lparr>alloc_ok := (\<lambda>site. site \<noteq> Mallocz_HWDevice)\<rparr>"

text \<open>The same runtime when only the two string copies at the head of a specification
  succeed, and a registry in which every default name of \<^verbatim>\<open>cuda\<close> is taken.\<close>

definition example_env_retry :: hw_env where
  "example_env_retry =
     example_env\<lparr>alloc_ok := (\<lambda>site. site = Strndup_type_name \<or> site = Strndup_name)\<rparr>"

definition example_full_registry :: "HWDevice list" where
  "example_full_registry =
     map (\<lambda>i. \<lparr>name = ''cuda'' @ string_of_nat i, type = AV_HWDEVICE_TYPE 2,
                device_ref = None\<rparr>) [0..<1000]"

subsection \<open>Streams, codecs and filters to run the functions on\<close>

text \<open>
  A decoder with one configuration, which binds a device of type 2 through a device
  context, and a decoder without any; an input stream that asks for a device of type 2;
  a library in which binding a device to a decoder succeeds.
\<close>

definition example_decoder :: AVCodec where
  "example_decoder =
     \<lparr>hw_configs = [\<lparr>pix_fmt = 0, methods = 1, device_type = AV_HWDEVICE_TYPE 2\<rparr>]\<rparr>"

definition example_decoder_software :: AVCodec where
  "example_decoder_software = \<lparr>hw_configs = []\<rparr>"

definition example_ist :: "AVCodec \<Rightarrow> InputStream" where
  "example_ist cdc =
     \<lparr>hwaccel_id = HWACCEL 2, hwaccel_device_type = AV_HWDEVICE_TYPE 2,
      dec_ctx = \<lparr>codec = cdc, bound_device_ctx = None, bound_frames_ctx = None\<rparr>,
      hwaccel_device_ref = None, st_index = 0\<rparr>"

definition example_decode_env :: decode_env where
  "example_decode_env =
     \<lparr>avcodec_set_hw_device_ctx = (\<lambda>ctx r. (0, ctx\<lparr>bound_device_ctx := r\<rparr>)),
      av_buffer_ref = (\<lambda>r. r)\<rparr>"

text \<open>
  An encoder that takes frames of a device of type 3, a fresh output stream for it, a library
  that hands out the frame pool 9 and refuses to bind it, and one that hands out no pool.
\<close>

definition example_encoder :: AVCodec where
  "example_encoder =
     \<lparr>hw_configs = [\<lparr>pix_fmt = 0, methods = 3, device_type = AV_HWDEVICE_TYPE 3\<rparr>]\<rparr>"

definition example_ost :: OutputStream where
  "example_ost =
     \<lparr>enc_ctx = \<lparr>codec = example_encoder, bound_device_ctx = None, bound_frames_ctx = None\<rparr>,
      hw_frames_ctx = None\<rparr>"

definition example_encode_env :: encode_env where
  "example_encode_env =
     \<lparr>avcodec_get_hw_frames_parameters = (\<lambda>ctx dref fmt frames. (0, Some 9)),
      avcodec_set_hw_frames_ctx = (\<lambda>ctx frames. (AVERROR EINVAL, ctx))\<rparr>"

definition example_encode_env_no_frames :: encode_env where
  "example_encode_env_no_frames =
     example_encode_env
       \<lparr>avcodec_get_hw_frames_parameters := (\<lambda>ctx dref fmt frames. (AVERROR ENOSYS, frames))\<rparr>"

text \<open>
  Filters, and a library in which setting an option succeeds on a filter that has none yet
  and fails on any other.
\<close>

definition example_filter :: "string \<Rightarrow> AVFilterContext" where
  "example_filter nm = \<lparr>filter_name = nm, inputs = [0], filter_options = []\<rparr>"

definition example_filter_env :: filter_env where
  "example_filter_env =
     \<lparr>avcodec_find_decoder = (\<lambda>id. if id = 0 then Some example_encoder else None),
      av_opt_set = (\<lambda>f key val.
        if filter_options f = [] then (0, f\<lparr>filter_options := [(key, val)]\<rparr>)
        else (AVERROR EINVAL, f))\<rparr>"

definition example_fg :: "AVFilterContext list \<Rightarrow> FilterGraph" where
  "example_fg fs = \<lparr>graph = \<lparr>sink = example_filter ''buffersink'', filters = fs\<rparr>\<rparr>"

definition example_filter_set :: AVFilterContext where
  "example_filter_set = (example_filter ''hwupload'')\<lparr>filter_options := [(''device'', ''vaapi0'')]\<rparr>"

subsection \<open>Frames and packets to run the functions on\<close>

text \<open>
  A library that allocates, as libavutil does for a planar format, one plane for each
  channel of the layout of the frame (each bit of the layout is a channel), here of one
  byte for each sample and filled with zeros; and a frame of three channels with four
  samples.
\<close>

fun count_bits :: "nat \<Rightarrow> nat" where
  "count_bits n = (if n = 0 then 0 else n mod 2 + count_bits (n div 2))"

declare count_bits.simps [simp del]

definition example_blank_frame :: AVFrame where
  "example_blank_frame =
     \<lparr>data = [], linesize = 0, channel_layout = 0, sample_rate = 0, format = - 1,
      nb_samples = 0, pts = 0, pkt_dts = 0\<rparr>"

definition example_frame_env :: frame_env where
  "example_frame_env =
     \<lparr>av_frame_alloc = Some example_blank_frame,
      av_frame_get_buffer = (\<lambda>f align.
        (0, replicate (count_bits (channel_layout f)) (replicate (nat (nb_samples f)) 0),
         nat (nb_samples f)))\<rparr>"

definition example_frame :: AVFrame where
  "example_frame =
     \<lparr>data = [[1, 2, 3, 4], [5, 6, 7, 8], [9, 10, 11, 12]], linesize = 4,
      channel_layout = 7, sample_rate = 48000, format = 5, nb_samples = 4,
      pts = 1000, pkt_dts = 990\<rparr>"

definition example_frame_remixed :: AVFrame where
  "example_frame_remixed =
     example_frame\<lparr>data := [[9, 10, 11, 12], [1, 2, 3, 4], [0, 0, 0, 0]]\<rparr>"

definition example_frame_unmixed :: AVFrame where
  "example_frame_unmixed =
     example_frame\<lparr>data := [[0, 0, 0, 0], [0, 0, 0, 0], [0, 0, 0, 0]]\<rparr>"

text \<open>
  A demuxer that delivers one packet, of stream 0, and then reports the end of the file; the
  decoder takes the packet, and every \<^verbatim>\<open>avcodec_receive_frame\<close> returns \<open>received\<close>.
\<close>

definition example_packet :: AVPacket where
  "example_packet = \<lparr>stream_index = 0, pkt_data = 1\<rparr>"

definition example_no_packet :: AVPacket where
  "example_no_packet = \<lparr>stream_index = - 1, pkt_data = 0\<rparr>"

definition example_remix_env :: "int \<Rightarrow> nat remix_env" where
  "example_remix_env received =
     \<lparr>av_read_frame = (\<lambda>w. if w = 0 then (0, example_packet, 1)
                             else (AVERROR_EOF, example_no_packet, w)),
      avcodec_send_packet = (\<lambda>w pkt. (0, w)),
      avcodec_receive_frame = (\<lambda>w fr. (received, fr, w)),
      frame_lib = example_frame_env\<rparr>"

section \<open>Properties\<close>

subsection \<open>Lookup by type\<close>

lemma get_by_type_loop_found:
  "hw_device_get_by_type_loop ds ty (Some f) =
     (if filter (\<lambda>d. type d = ty) ds = [] then Some f else None)"
  by (induction ds) auto

lemma get_by_type_loop_none:
  "hw_device_get_by_type_loop ds ty None =
     (case filter (\<lambda>d. type d = ty) ds of [d] \<Rightarrow> Some d | _ \<Rightarrow> None)"
  by (induction ds) (auto simp: get_by_type_loop_found split: list.splits)

text \<open>
  Claim C6. For every registry and every device type, \<open>hw_device_get_by_type\<close> finds
  nothing when no registered device has the type, finds nothing when two or more have it,
  and returns the device when exactly one has it.
\<close>

theorem hw_device_get_by_type_unique:
  "(length (filter (\<lambda>d. type d = ty) hw_devices) = 0 \<longrightarrow>
      hw_device_get_by_type hw_devices ty = None) \<and>
   (2 \<le> length (filter (\<lambda>d. type d = ty) hw_devices) \<longrightarrow>
      hw_device_get_by_type hw_devices ty = None) \<and>
   (\<forall>d. filter (\<lambda>d. type d = ty) hw_devices = [d] \<longrightarrow>
      hw_device_get_by_type hw_devices ty = Some d)"
  by (auto simp: hw_device_get_by_type_def get_by_type_loop_none split: list.splits)

theorem hw_device_get_by_type_unique_witness:
  "hw_device_get_by_type [] (AV_HWDEVICE_TYPE 1) = None \<and>
   hw_device_get_by_type
     [\<lparr>name = ''a'', type = AV_HWDEVICE_TYPE 1, device_ref = Some 0\<rparr>,
      \<lparr>name = ''b'', type = AV_HWDEVICE_TYPE 1, device_ref = Some 1\<rparr>]
     (AV_HWDEVICE_TYPE 1) = None \<and>
   hw_device_get_by_type
     [\<lparr>name = ''a'', type = AV_HWDEVICE_TYPE 1, device_ref = Some 0\<rparr>,
      \<lparr>name = ''b'', type = AV_HWDEVICE_TYPE 2, device_ref = Some 1\<rparr>]
     (AV_HWDEVICE_TYPE 1) =
     Some \<lparr>name = ''a'', type = AV_HWDEVICE_TYPE 1, device_ref = Some 0\<rparr>"
  using hw_device_get_by_type_unique [of "AV_HWDEVICE_TYPE 1" "[]"]
    hw_device_get_by_type_unique [of "AV_HWDEVICE_TYPE 1"
      "[\<lparr>name = ''a'', type = AV_HWDEVICE_TYPE 1, device_ref = Some 0\<rparr>,
        \<lparr>name = ''b'', type = AV_HWDEVICE_TYPE 1, device_ref = Some 1\<rparr>]"]
    hw_device_get_by_type_unique [of "AV_HWDEVICE_TYPE 1"
      "[\<lparr>name = ''a'', type = AV_HWDEVICE_TYPE 1, device_ref = Some 0\<rparr>,
        \<lparr>name = ''b'', type = AV_HWDEVICE_TYPE 2, device_ref = Some 1\<rparr>]"]
  by simp

subsection \<open>Strings, default names and the blocks of device creation\<close>

lemma strcspn_stop:
  "set a \<inter> set reject = {} \<Longrightarrow> c \<in> set reject \<Longrightarrow> strcspn (a @ c # r) reject = length a"
  by (induction a) (auto simp: strcspn_def)

lemma strcspn_all:
  "set a \<inter> set reject = {} \<Longrightarrow> strcspn a reject = length a"
  by (induction a) (auto simp: strcspn_def)

lemma strchr_stop:
  "c \<notin> set a \<Longrightarrow> strchr (a @ c # r) c = Some (length a)"
  by (induction a) (auto simp: strchr_def)

lemma string_of_nat_digit: "n < 10 \<Longrightarrow> string_of_nat n = [decimal_digit n]"
  by (simp add: string_of_nat.simps [of n])

lemma length_string_of_nat: "n < 1000 \<Longrightarrow> length (string_of_nat n) \<le> 3"
proof -
  assume n: "n < 1000"
  have a: "length (string_of_nat m) = 1" if "m < 10" for m
    using that by (simp add: string_of_nat_digit)
  have b: "length (string_of_nat m) \<le> 2" if "m < 100" for m
    using that a [of "m div 10"] a [of m] by (cases "m < 10") (simp_all add: string_of_nat.simps [of m])
  show ?thesis
    using n b [of "n div 10"] b [of n] by (cases "n < 10") (simp_all add: string_of_nat.simps [of n])
qed

lemma snprintf_sd_name:
  "index < 1000 \<Longrightarrow>
   snprintf_sd (length type_name + 4) type_name index = type_name @ string_of_nat index"
  using length_string_of_nat [of index] by (simp add: snprintf_sd_def)

lemma default_name_loop_free:
  "index < index_limit \<Longrightarrow>
   hw_device_get_by_name hw_devices (snprintf_sd (length type_name + 4) type_name index) = None \<Longrightarrow>
   hw_device_default_name_loop hw_devices type_name index_limit index = index"
  by (simp add: hw_device_default_name_loop.simps [of _ _ _ index])

lemma default_name_loop_taken:
  "index < index_limit \<Longrightarrow>
   hw_device_get_by_name hw_devices (snprintf_sd (length type_name + 4) type_name index) \<noteq> None \<Longrightarrow>
   hw_device_default_name_loop hw_devices type_name index_limit index =
   hw_device_default_name_loop hw_devices type_name index_limit (index + 1)"
  by (auto simp: hw_device_default_name_loop.simps [of _ _ _ index])

lemma default_name_loop_least:
  "index \<le> j \<Longrightarrow> j < index_limit \<Longrightarrow>
   hw_device_get_by_name hw_devices (snprintf_sd (length type_name + 4) type_name j) = None \<Longrightarrow>
   (\<forall>i. index \<le> i \<and> i < j \<longrightarrow>
      hw_device_get_by_name hw_devices (snprintf_sd (length type_name + 4) type_name i) \<noteq> None) \<Longrightarrow>
   hw_device_default_name_loop hw_devices type_name index_limit index = j"
proof (induction "j - index" arbitrary: index)
  case 0
  then show ?case by (simp add: default_name_loop_free)
next
  case (Suc n)
  then have lt: "index < j" by simp
  with Suc.prems have taken:
    "hw_device_get_by_name hw_devices (snprintf_sd (length type_name + 4) type_name index) \<noteq> None"
    by simp
  have "hw_device_default_name_loop hw_devices type_name index_limit (index + 1) = j"
    using Suc.hyps Suc.prems lt by (intro Suc.hyps(1)) auto
  with taken lt Suc.prems show ?case
    by (simp add: default_name_loop_taken)
qed

lemma default_name_loop_exhausted:
  "index \<le> index_limit \<Longrightarrow>
   (\<forall>i. index \<le> i \<and> i < index_limit \<longrightarrow>
      hw_device_get_by_name hw_devices (snprintf_sd (length type_name + 4) type_name i) \<noteq> None) \<Longrightarrow>
   hw_device_default_name_loop hw_devices type_name index_limit index = index_limit"
proof (induction "index_limit - index" arbitrary: index)
  case 0
  then show ?case by (simp add: hw_device_default_name_loop.simps [of _ _ _ index])
next
  case (Suc n)
  then have lt: "index < index_limit" by simp
  with Suc.prems have taken:
    "hw_device_get_by_name hw_devices (snprintf_sd (length type_name + 4) type_name index) \<noteq> None"
    by simp
  have "hw_device_default_name_loop hw_devices type_name index_limit (index + 1) = index_limit"
    using Suc.hyps Suc.prems lt by (intro Suc.hyps(1)) auto
  with taken lt show ?case
    by (simp add: default_name_loop_taken)
qed

lemma default_name_least:
  assumes "alloc_ok env Malloc_default_name" "j < 1000"
    and "hw_device_get_by_name hw_devices (av_hwdevice_get_type_name env ty @ string_of_nat j) = None"
    and "\<forall>i<j. hw_device_get_by_name hw_devices (av_hwdevice_get_type_name env ty @ string_of_nat i) \<noteq> None"
  shows "hw_device_default_name env hw_devices ty =
           Some (av_hwdevice_get_type_name env ty @ string_of_nat j)"
proof -
  let ?tn = "av_hwdevice_get_type_name env ty"
  have "hw_device_default_name_loop hw_devices ?tn 1000 0 = j"
    using assms by (intro default_name_loop_least) (auto simp: snprintf_sd_name)
  with assms show ?thesis
    by (simp add: hw_device_default_name_def Let_def snprintf_sd_name)
qed

lemma default_name_exhausted:
  assumes "\<forall>i<1000. hw_device_get_by_name hw_devices (av_hwdevice_get_type_name env ty @ string_of_nat i) \<noteq> None"
  shows "hw_device_default_name env hw_devices ty = None"
proof -
  let ?tn = "av_hwdevice_get_type_name env ty"
  have "hw_device_default_name_loop hw_devices ?tn 1000 0 = 1000"
    using assms by (intro default_name_loop_exhausted) (auto simp: snprintf_sd_name)
  then show ?thesis
    by (simp add: hw_device_default_name_def Let_def)
qed

lemma get_by_name_append:
  "hw_device_get_by_name (ds @ [d]) nm =
     (case hw_device_get_by_name ds nm of
        Some x \<Rightarrow> Some x
      | None \<Rightarrow> if name d = nm then Some d else None)"
  by (induction ds) auto

lemma get_by_name_member: "d \<in> set ds \<Longrightarrow> hw_device_get_by_name ds (name d) \<noteq> None"
  by (induction ds) auto

lemma init_name_default:
  "\<not> explicit_name arg \<Longrightarrow>
   init_name env hw_devices ty (drop (strcspn arg '':=@'') arg) =
     (case hw_device_default_name env hw_devices ty of
        None \<Rightarrow> Goto_fail (AVERROR ENOMEM)
      | Some nm \<Rightarrow> Fallthrough (nm, drop (strcspn arg '':=@'') arg))"
  by (auto simp: init_name_def explicit_name_def Let_def)

lemma init_name_explicit:
  assumes "set nm \<inter> set '':@,'' = {}" and "rest = [] \<or> hd rest \<in> set '':@,''"
    and "alloc_ok env Strndup_name"
  shows "init_name env hw_devices ty (CHR ''='' # nm @ rest) =
           (if hw_device_get_by_name hw_devices nm \<noteq> None
            then Goto_invalid ''named device already exists''
            else Fallthrough (nm, rest))"
proof -
  have k: "strcspn (nm @ rest) '':@,'' = length nm"
  proof (cases rest)
    case Nil
    with assms(1) show ?thesis by (simp add: strcspn_all)
  next
    case (Cons c r)
    with assms(2) have "c \<in> set '':@,''" by simp
    with assms(1) Cons show ?thesis by (simp only: strcspn_stop)
  qed
  show ?thesis
    using assms(3) by (simp add: init_name_def k av_strndup_def)
qed

lemma init_name_fail:
  "init_name env hw_devices ty p = Goto_fail err \<Longrightarrow> err = AVERROR ENOMEM"
  by (auto simp: init_name_def Let_def split: if_splits option.splits)

lemma init_created_fail: "init_created r = Goto_fail err \<Longrightarrow> err < 0"
  by (auto simp: init_created_def split: if_splits)

lemma init_create_fail:
  "init_create env hw_devices ty p = Goto_fail err \<Longrightarrow> err < 0"
  by (auto simp: init_create_def AVERROR_def ENOMEM_def
      split: list.splits if_splits option.splits prod.splits dest: init_created_fail)

lemma init_fail_ret: "ret (init_fail ds err) = err" "devices (init_fail ds err) = ds"
  "logged (init_fail ds err) = [Device_creation_failed err]"
  by (simp_all add: init_fail_def)

lemma init_invalid_ret: "ret (init_invalid ds arg m) = AVERROR EINVAL"
  "devices (init_invalid ds arg m) = ds"
  "logged (init_invalid ds arg m) = [Invalid_device_specification arg m]"
  by (simp_all add: init_invalid_def)

lemma AVERROR_nonzero: "AVERROR ENOMEM \<noteq> 0" "AVERROR EINVAL \<noteq> 0" "AVERROR ENOMEM < 0"
  "AVERROR EINVAL < 0"
  by (simp_all add: AVERROR_def ENOMEM_def EINVAL_def)

lemma init_success:
  assumes "ret (hw_device_init_from_string env hw_devices arg) = 0"
  shows "\<exists>nm p dref.
           alloc_ok env Strndup_type_name \<and>
           av_hwdevice_find_type_by_name env (take (strcspn arg '':=@'') arg) \<noteq> AV_HWDEVICE_TYPE_NONE \<and>
           init_name env hw_devices
             (av_hwdevice_find_type_by_name env (take (strcspn arg '':=@'') arg))
             (drop (strcspn arg '':=@'') arg) = Fallthrough (nm, p) \<and>
           devices (hw_device_init_from_string env hw_devices arg) =
             hw_devices @ [\<lparr>name = nm,
                type = av_hwdevice_find_type_by_name env (take (strcspn arg '':=@'') arg),
                device_ref = dref\<rparr>]"
  using assms
  by (auto simp: hw_device_init_from_string_def Let_def init_fail_ret init_invalid_ret
      hw_device_add_def AVERROR_nonzero av_strndup_def
      split: option.splits goto.splits prod.splits if_splits
      dest: init_name_fail init_create_fail)

subsection \<open>The registry after a failed creation\<close>

text \<open>
  Claim C1, as stated: whenever \<open>hw_device_init_from_string\<close> returns an error, the
  registry is what it was before the call. It fails when \<^verbatim>\<open>av_reallocp_array\<close> fails in
  \<open>hw_device_add\<close>: with one device registered, the call for \<^verbatim>\<open>cuda\<close> returns
  \<^verbatim>\<open>AVERROR(ENOMEM)\<close> and leaves the registry empty.
\<close>

theorem init_realloc_failure_empties_registry:
  "ret (hw_device_init_from_string example_env_no_realloc [example_device] ''cuda'') =
     AVERROR ENOMEM \<and>
   devices (hw_device_init_from_string example_env_no_realloc [example_device] ''cuda'') = [] \<and>
   devices (hw_device_init_from_string example_env_no_realloc [example_device] ''cuda'') \<noteq>
     [example_device]"
  by code_simp

text \<open>
  Claim C1, amended. When a call of \<open>hw_device_init_from_string\<close> reaches
  \<open>hw_device_add\<close> and \<^verbatim>\<open>av_reallocp_array\<close> fails there, the call returns
  \<^verbatim>\<open>AVERROR(ENOMEM)\<close>, logs that the creation failed and leaves the registry empty.
  Whenever the call returns an error in any other way, the registry is exactly what it was
  before the call.
\<close>

theorem init_error_registry:
  "(reaches_hw_device_add env hw_devices arg \<and> \<not> alloc_ok env Reallocp_hw_devices \<longrightarrow>
      hw_device_init_from_string env hw_devices arg =
        \<lparr>ret = AVERROR ENOMEM, logged = [Device_creation_failed (AVERROR ENOMEM)],
         devices = [], dev_out = None\<rparr>) \<and>
   (ret (hw_device_init_from_string env hw_devices arg) \<noteq> 0 \<longrightarrow>
      devices (hw_device_init_from_string env hw_devices arg) =
        (if reaches_hw_device_add env hw_devices arg \<and> \<not> alloc_ok env Reallocp_hw_devices
         then [] else hw_devices))"
  by (auto simp: hw_device_init_from_string_def reaches_hw_device_add_def Let_def
      init_fail_def init_invalid_def
      hw_device_add_def split: option.splits goto.splits prod.splits if_splits)

theorem init_error_registry_witness:
  "hw_device_init_from_string example_env_no_realloc [example_device] ''cuda=gpu'' =
     \<lparr>ret = AVERROR ENOMEM, logged = [Device_creation_failed (AVERROR ENOMEM)],
      devices = [], dev_out = None\<rparr> \<and>
   ret (hw_device_init_from_string example_env [example_device] ''foo'') \<noteq> 0 \<and>
   devices (hw_device_init_from_string example_env [example_device] ''foo'') = [example_device] \<and>
   ret (hw_device_init_from_string example_env_no_mallocz [example_device] ''cuda'') \<noteq> 0 \<and>
   devices (hw_device_init_from_string example_env_no_mallocz [example_device] ''cuda'') =
     [example_device]"
proof -
  have a: "reaches_hw_device_add example_env_no_realloc [example_device] ''cuda=gpu''"
    "\<not> alloc_ok example_env_no_realloc Reallocp_hw_devices"
    by code_simp+
  have b: "ret (hw_device_init_from_string example_env [example_device] ''foo'') \<noteq> 0"
    "\<not> reaches_hw_device_add example_env [example_device] ''foo''"
    by code_simp+
  have c: "ret (hw_device_init_from_string example_env_no_mallocz [example_device] ''cuda'') \<noteq> 0"
    "alloc_ok example_env_no_mallocz Reallocp_hw_devices"
    by code_simp+
  from init_error_registry [of example_env_no_realloc "[example_device]" "''cuda=gpu''"] a
  have 1: "hw_device_init_from_string example_env_no_realloc [example_device] ''cuda=gpu'' =
     \<lparr>ret = AVERROR ENOMEM, logged = [Device_creation_failed (AVERROR ENOMEM)],
      devices = [], dev_out = None\<rparr>"
    by blast
  from init_error_registry [of example_env "[example_device]" "''foo''"] b
  have 2: "devices (hw_device_init_from_string example_env [example_device] ''foo'') =
     [example_device]"
    by simp
  from init_error_registry [of example_env_no_mallocz "[example_device]" "''cuda''"] c
  have 3: "devices (hw_device_init_from_string example_env_no_mallocz [example_device] ''cuda'') =
     [example_device]"
    by simp
  from 1 2 3 b(1) c(1) show ?thesis by simp
qed

subsection \<open>Default names\<close>

lemma init_without_name:
  assumes ok: "ret (hw_device_init_from_string env hw_devices arg) = 0"
    and nn: "\<not> explicit_name arg"
    and ty: "av_hwdevice_find_type_by_name env (take (strcspn arg '':=@'') arg) = ty"
    and free: "hw_device_get_by_name hw_devices (av_hwdevice_get_type_name env ty @ string_of_nat j) = None"
    and taken: "\<forall>i<j. hw_device_get_by_name hw_devices (av_hwdevice_get_type_name env ty @ string_of_nat i) \<noteq> None"
    and j: "j < 1000"
  shows "\<exists>dref. devices (hw_device_init_from_string env hw_devices arg) =
           hw_devices @ [\<lparr>name = av_hwdevice_get_type_name env ty @ string_of_nat j, type = ty,
                          device_ref = dref\<rparr>]"
proof -
  from init_success [OF ok] ty obtain nm p dref where
    nm: "init_name env hw_devices ty (drop (strcspn arg '':=@'') arg) = Fallthrough (nm, p)"
    and ds: "devices (hw_device_init_from_string env hw_devices arg) =
               hw_devices @ [\<lparr>name = nm, type = ty, device_ref = dref\<rparr>]"
    by auto
  from nm have some: "hw_device_default_name env hw_devices ty = Some nm"
    by (simp add: init_name_default [OF nn] split: option.splits)
  then have "alloc_ok env Malloc_default_name"
    by (auto simp: hw_device_default_name_def Let_def split: if_splits)
  from default_name_least [OF this j free taken] some
  have "nm = av_hwdevice_get_type_name env ty @ string_of_nat j" by simp
  with ds show ?thesis by blast
qed

lemma string_of_nat_0: "string_of_nat 0 = ''0''"
  by code_simp

lemma string_of_nat_1: "string_of_nat (Suc 0) = ''1''"
  by code_simp

lemma two_default_names:
  assumes nn1: "\<not> explicit_name arg1" and nn2: "\<not> explicit_name arg2"
    and ty1: "av_hwdevice_find_type_by_name env1 (take (strcspn arg1 '':=@'') arg1) = ty"
    and ty2: "av_hwdevice_find_type_by_name env2 (take (strcspn arg2 '':=@'') arg2) = ty"
    and tn1: "av_hwdevice_get_type_name env1 ty = tn"
    and tn2: "av_hwdevice_get_type_name env2 ty = tn"
    and free0: "hw_device_get_by_name hw_devices (tn @ ''0'') = None"
    and free1: "hw_device_get_by_name hw_devices (tn @ ''1'') = None"
    and ok1: "ret (hw_device_init_from_string env1 hw_devices arg1) = 0"
    and ok2: "ret (hw_device_init_from_string env2
                     (devices (hw_device_init_from_string env1 hw_devices arg1)) arg2) = 0"
  shows "\<exists>dref1 dref2.
           devices (hw_device_init_from_string env1 hw_devices arg1) =
             hw_devices @ [\<lparr>name = tn @ ''0'', type = ty, device_ref = dref1\<rparr>] \<and>
           devices (hw_device_init_from_string env2
                      (devices (hw_device_init_from_string env1 hw_devices arg1)) arg2) =
             hw_devices @ [\<lparr>name = tn @ ''0'', type = ty, device_ref = dref1\<rparr>,
                           \<lparr>name = tn @ ''1'', type = ty, device_ref = dref2\<rparr>]"
proof -
  from init_without_name [OF ok1 nn1 ty1, of 0] free0 tn1 obtain dref1 where
    d1: "devices (hw_device_init_from_string env1 hw_devices arg1) =
           hw_devices @ [\<lparr>name = tn @ ''0'', type = ty, device_ref = dref1\<rparr>]"
    by (auto simp: string_of_nat_0)
  let ?ds = "hw_devices @ [\<lparr>name = tn @ ''0'', type = ty, device_ref = dref1\<rparr>]"
  have f1: "hw_device_get_by_name ?ds (av_hwdevice_get_type_name env2 ty @ string_of_nat 1) = None"
    using free1 by (simp add: get_by_name_append tn2 string_of_nat_1)
  have t0: "\<forall>i<1. hw_device_get_by_name ?ds (av_hwdevice_get_type_name env2 ty @ string_of_nat i) \<noteq> None"
    by (simp add: get_by_name_append tn2 string_of_nat_0 split: option.splits)
  from init_without_name [OF ok2 [unfolded d1] nn2 ty2 f1 t0] obtain dref2 where
    "devices (hw_device_init_from_string env2 ?ds arg2) =
       ?ds @ [\<lparr>name = tn @ ''1'', type = ty, device_ref = dref2\<rparr>]"
    by (auto simp: tn2 string_of_nat_1)
  with d1 show ?thesis by simp
qed

lemma init_names_exhausted:
  assumes taken: "\<forall>i<1000. hw_device_get_by_name hw_devices
                     (av_hwdevice_get_type_name env ty @ string_of_nat i) \<noteq> None"
    and nn: "\<not> explicit_name arg"
    and ok: "alloc_ok env Strndup_type_name"
    and ty: "av_hwdevice_find_type_by_name env (take (strcspn arg '':=@'') arg) = ty"
    and known: "ty \<noteq> AV_HWDEVICE_TYPE_NONE"
  shows "hw_device_init_from_string env hw_devices arg =
           \<lparr>ret = AVERROR ENOMEM, logged = [Device_creation_failed (AVERROR ENOMEM)],
            devices = hw_devices, dev_out = None\<rparr>"
  using ok ty known
  by (simp add: hw_device_init_from_string_def av_strndup_def Let_def init_name_default [OF nn]
      default_name_exhausted [OF taken] init_fail_def)

lemma full_registry_taken:
  "i < n \<Longrightarrow>
   hw_device_get_by_name
     (map (\<lambda>i. \<lparr>name = tn @ string_of_nat i, type = ty, device_ref = None\<rparr>) [0..<n])
     (tn @ string_of_nat i) \<noteq> None"
  using get_by_name_member
    [of "\<lparr>name = tn @ string_of_nat i, type = ty, device_ref = None\<rparr>"
        "map (\<lambda>i. \<lparr>name = tn @ string_of_nat i, type = ty, device_ref = None\<rparr>) [0..<n]"]
  by auto


text \<open>
  Claim C9. Two devices of one type registered without explicit names, in a registry where
  the names \<open>tn0\<close> and \<open>tn1\<close> of the type name \<open>tn\<close> are free, get the names \<open>tn0\<close> and
  \<open>tn1\<close>, in this order. In general \<open>hw_device_default_name\<close> returns the type name followed
  by the least index below 1000 whose name is free, and when the names of all indices below
  1000 are taken it returns \<^verbatim>\<open>NULL\<close> and \<open>hw_device_init_from_string\<close> fails with
  \<^verbatim>\<open>AVERROR(ENOMEM)\<close>.
\<close>

theorem hw_device_default_name_indices:
  "(\<not> explicit_name arg_a \<and> \<not> explicit_name arg_b \<and>
    av_hwdevice_find_type_by_name env_a (take (strcspn arg_a '':=@'') arg_a) = ty \<and>
    av_hwdevice_find_type_by_name env_b (take (strcspn arg_b '':=@'') arg_b) = ty \<and>
    av_hwdevice_get_type_name env_a ty = tn \<and> av_hwdevice_get_type_name env_b ty = tn \<and>
    hw_device_get_by_name hw_devices (tn @ ''0'') = None \<and>
    hw_device_get_by_name hw_devices (tn @ ''1'') = None \<and>
    ret (hw_device_init_from_string env_a hw_devices arg_a) = 0 \<and>
    ret (hw_device_init_from_string env_b
           (devices (hw_device_init_from_string env_a hw_devices arg_a)) arg_b) = 0 \<longrightarrow>
    (\<exists>dref1 dref2.
       devices (hw_device_init_from_string env_a hw_devices arg_a) =
         hw_devices @ [\<lparr>name = tn @ ''0'', type = ty, device_ref = dref1\<rparr>] \<and>
       devices (hw_device_init_from_string env_b
                  (devices (hw_device_init_from_string env_a hw_devices arg_a)) arg_b) =
         hw_devices @ [\<lparr>name = tn @ ''0'', type = ty, device_ref = dref1\<rparr>,
                       \<lparr>name = tn @ ''1'', type = ty, device_ref = dref2\<rparr>])) \<and>
   (j < 1000 \<and> alloc_ok env Malloc_default_name \<and>
    hw_device_get_by_name ds (av_hwdevice_get_type_name env t @ string_of_nat j) = None \<and>
    (\<forall>i<j. hw_device_get_by_name ds (av_hwdevice_get_type_name env t @ string_of_nat i) \<noteq> None)
    \<longrightarrow>
    hw_device_default_name env ds t = Some (av_hwdevice_get_type_name env t @ string_of_nat j)) \<and>
   ((\<forall>i<1000. hw_device_get_by_name ds (av_hwdevice_get_type_name env t @ string_of_nat i) \<noteq> None)
    \<longrightarrow>
    hw_device_default_name env ds t = None \<and>
    (\<not> explicit_name arg \<and> alloc_ok env Strndup_type_name \<and>
     av_hwdevice_find_type_by_name env (take (strcspn arg '':=@'') arg) = t \<and>
     t \<noteq> AV_HWDEVICE_TYPE_NONE \<longrightarrow>
     hw_device_init_from_string env ds arg =
       \<lparr>ret = AVERROR ENOMEM, logged = [Device_creation_failed (AVERROR ENOMEM)],
        devices = ds, dev_out = None\<rparr>))"
proof (intro conjI impI)
  assume "\<not> explicit_name arg_a \<and> \<not> explicit_name arg_b \<and>
    av_hwdevice_find_type_by_name env_a (take (strcspn arg_a '':=@'') arg_a) = ty \<and>
    av_hwdevice_find_type_by_name env_b (take (strcspn arg_b '':=@'') arg_b) = ty \<and>
    av_hwdevice_get_type_name env_a ty = tn \<and> av_hwdevice_get_type_name env_b ty = tn \<and>
    hw_device_get_by_name hw_devices (tn @ ''0'') = None \<and>
    hw_device_get_by_name hw_devices (tn @ ''1'') = None \<and>
    ret (hw_device_init_from_string env_a hw_devices arg_a) = 0 \<and>
    ret (hw_device_init_from_string env_b
           (devices (hw_device_init_from_string env_a hw_devices arg_a)) arg_b) = 0"
  then show "\<exists>dref1 dref2.
       devices (hw_device_init_from_string env_a hw_devices arg_a) =
         hw_devices @ [\<lparr>name = tn @ ''0'', type = ty, device_ref = dref1\<rparr>] \<and>
       devices (hw_device_init_from_string env_b
                  (devices (hw_device_init_from_string env_a hw_devices arg_a)) arg_b) =
         hw_devices @ [\<lparr>name = tn @ ''0'', type = ty, device_ref = dref1\<rparr>,
                       \<lparr>name = tn @ ''1'', type = ty, device_ref = dref2\<rparr>]"
    by (intro two_default_names) simp_all
next
  assume "j < 1000 \<and> alloc_ok env Malloc_default_name \<and>
    hw_device_get_by_name ds (av_hwdevice_get_type_name env t @ string_of_nat j) = None \<and>
    (\<forall>i<j. hw_device_get_by_name ds (av_hwdevice_get_type_name env t @ string_of_nat i) \<noteq> None)"
  then show "hw_device_default_name env ds t =
      Some (av_hwdevice_get_type_name env t @ string_of_nat j)"
    by (intro default_name_least) simp_all
next
  assume "\<forall>i<1000. hw_device_get_by_name ds (av_hwdevice_get_type_name env t @ string_of_nat i) \<noteq> None"
  then show "hw_device_default_name env ds t = None"
    by (rule default_name_exhausted)
next
  assume taken: "\<forall>i<1000. hw_device_get_by_name ds (av_hwdevice_get_type_name env t @ string_of_nat i) \<noteq> None"
    and h: "\<not> explicit_name arg \<and> alloc_ok env Strndup_type_name \<and>
     av_hwdevice_find_type_by_name env (take (strcspn arg '':=@'') arg) = t \<and>
     t \<noteq> AV_HWDEVICE_TYPE_NONE"
  from h have h1: "\<not> explicit_name arg" and h2: "alloc_ok env Strndup_type_name"
    and h3: "av_hwdevice_find_type_by_name env (take (strcspn arg '':=@'') arg) = t"
    and h4: "t \<noteq> AV_HWDEVICE_TYPE_NONE"
    by blast+
  show "hw_device_init_from_string env ds arg =
       \<lparr>ret = AVERROR ENOMEM, logged = [Device_creation_failed (AVERROR ENOMEM)],
        devices = ds, dev_out = None\<rparr>"
    by (rule init_names_exhausted [OF taken h1 h2 h3 h4])
qed

theorem hw_device_default_name_indices_witness:
  "map name (devices (hw_device_init_from_string example_env
              (devices (hw_device_init_from_string example_env [] ''cuda'')) ''cuda'')) =
     [''cuda0'', ''cuda1''] \<and>
   hw_device_default_name example_env [example_device] (AV_HWDEVICE_TYPE 2) = Some ''cuda0'' \<and>
   hw_device_init_from_string example_env example_full_registry ''cuda'' =
     \<lparr>ret = AVERROR ENOMEM, logged = [Device_creation_failed (AVERROR ENOMEM)],
      devices = example_full_registry, dev_out = None\<rparr>"
proof -
  have a: "\<not> explicit_name ''cuda''"
    "av_hwdevice_find_type_by_name example_env (take (strcspn ''cuda'' '':=@'') ''cuda'') =
       AV_HWDEVICE_TYPE 2"
    "av_hwdevice_get_type_name example_env (AV_HWDEVICE_TYPE 2) = ''cuda''"
    "ret (hw_device_init_from_string example_env [] ''cuda'') = 0"
    "ret (hw_device_init_from_string example_env
            (devices (hw_device_init_from_string example_env [] ''cuda'')) ''cuda'') = 0"
    "alloc_ok example_env Malloc_default_name"
    "alloc_ok example_env Strndup_type_name"
    by code_simp+
  have full: "\<forall>i<1000. hw_device_get_by_name example_full_registry
                (av_hwdevice_get_type_name example_env (AV_HWDEVICE_TYPE 2) @ string_of_nat i) \<noteq> None"
    unfolding example_full_registry_def a(3) by (intro allI impI full_registry_taken)
  note inst = hw_device_default_name_indices
    [where arg_a = "''cuda''" and arg_b = "''cuda''" and env_a = example_env
       and env_b = example_env and ty = "AV_HWDEVICE_TYPE 2" and tn = "''cuda''"
       and hw_devices = "[]"]
  have first: "map name (devices (hw_device_init_from_string example_env
              (devices (hw_device_init_from_string example_env [] ''cuda'')) ''cuda'')) =
     [''cuda0'', ''cuda1'']"
    using inst [THEN conjunct1] a by auto
  have second: "hw_device_default_name example_env [example_device] (AV_HWDEVICE_TYPE 2) = Some ''cuda0''"
    using inst [where j = 0 and env = example_env and ds = "[example_device]" and t = "AV_HWDEVICE_TYPE 2"] a
    by (simp add: example_device_def string_of_nat_0)
  have third: "hw_device_init_from_string example_env example_full_registry ''cuda'' =
     \<lparr>ret = AVERROR ENOMEM, logged = [Device_creation_failed (AVERROR ENOMEM)],
      devices = example_full_registry, dev_out = None\<rparr>"
    using inst [where env = example_env and ds = example_full_registry and t = "AV_HWDEVICE_TYPE 2"
        and arg = "''cuda''"] a full
    by simp
  from first second third show ?thesis by simp
qed


subsection \<open>Named devices\<close>

lemma strchr_first: "strchr (c # r) c = Some 0"
  by (simp add: strchr_def)

lemma init_create_device_options:
  assumes "CHR '','' \<notin> set path" and "alloc_ok env Strndup_device"
    and "av_dict_parse_string env opts ''='' '','' = (perr, options)" and "0 \<le> perr"
    and "0 \<le> fst (av_hwdevice_ctx_create env ty (if path = [] then None else Some path) options)"
  shows "init_create env hw_devices ty (CHR '':'' # path @ CHR '','' # opts) =
           Fallthrough (snd (av_hwdevice_ctx_create env ty
                               (if path = [] then None else Some path) options))"
  using assms
  by (cases "path = []")
     (simp_all add: init_create_def strchr_stop strchr_first av_strndup_def init_created_def)

lemma init_type_prefix:
  "set tname \<inter> set '':=@'' = {} \<Longrightarrow>
   strcspn (tname @ CHR ''='' # rest) '':=@'' = length tname"
  by (rule strcspn_stop) simp_all

text \<open>
  Claim C5. For a specification \<^verbatim>\<open>type=name:path,opt=val\<close> whose type is known, whose name
  is not registered yet, and for which the allocations, the parsing of the options and the
  creation of the device context succeed, \<open>hw_device_init_from_string\<close> returns 0 and
  \<open>hw_device_get_by_name\<close> then finds a device of that name with the parsed type. A later
  call with the same explicit name returns \<^verbatim>\<open>AVERROR(EINVAL)\<close>, logs that the named device
  already exists and leaves the registry as it is.
\<close>

theorem init_from_string_named_device:
  assumes arg: "arg = tname @ ''='' @ nm @ '':'' @ path @ '','' @ opts"
    and tname: "set tname \<inter> set '':=@'' = {}"
    and nm: "set nm \<inter> set '':@,'' = {}"
    and path: "CHR '','' \<notin> set path"
    and alloc: "\<forall>site. site \<noteq> Malloc_default_name \<longrightarrow> alloc_ok env site"
    and ty: "av_hwdevice_find_type_by_name env tname = ty" "ty \<noteq> AV_HWDEVICE_TYPE_NONE"
    and fresh: "hw_device_get_by_name hw_devices nm = None"
    and parse: "av_dict_parse_string env opts ''='' '','' = (perr, options)" "0 \<le> perr"
    and create: "0 \<le> fst (av_hwdevice_ctx_create env ty
                             (if path = [] then None else Some path) options)"
    and arg': "arg' = tname' @ ''='' @ nm @ rest'"
    and tname': "set tname' \<inter> set '':=@'' = {}"
    and rest': "rest' = [] \<or> hd rest' \<in> set '':@,''"
    and alloc': "alloc_ok env' Strndup_type_name" "alloc_ok env' Strndup_name"
    and ty': "av_hwdevice_find_type_by_name env' tname' \<noteq> AV_HWDEVICE_TYPE_NONE"
  shows "ret (hw_device_init_from_string env hw_devices arg) = 0 \<and>
         (\<exists>d. hw_device_get_by_name
                 (devices (hw_device_init_from_string env hw_devices arg)) nm = Some d \<and>
              type d = ty \<and> name d = nm \<and>
              dev_out (hw_device_init_from_string env hw_devices arg) = Some d) \<and>
         hw_device_init_from_string env'
             (devices (hw_device_init_from_string env hw_devices arg)) arg' =
           \<lparr>ret = AVERROR EINVAL,
            logged = [Invalid_device_specification arg' ''named device already exists''],
            devices = devices (hw_device_init_from_string env hw_devices arg),
            dev_out = None\<rparr>"
proof -
  let ?d = "\<lparr>name = nm, type = ty,
             device_ref = snd (av_hwdevice_ctx_create env ty
                                 (if path = [] then None else Some path) options)\<rparr>"
  have name: "init_name env hw_devices ty (CHR ''='' # nm @ CHR '':'' # path @ CHR '','' # opts) =
                Fallthrough (nm, CHR '':'' # path @ CHR '','' # opts)"
    using init_name_explicit [OF nm, of "CHR '':'' # path @ CHR '','' # opts" env hw_devices ty]
      alloc fresh by simp
  have dev: "init_create env hw_devices ty (CHR '':'' # path @ CHR '','' # opts) =
               Fallthrough (device_ref ?d)"
    using init_create_device_options [OF path _ parse create] alloc by simp
  have first: "hw_device_init_from_string env hw_devices arg =
                 \<lparr>ret = 0, logged = [], devices = hw_devices @ [?d], dev_out = Some ?d\<rparr>"
    using alloc ty name dev
    by (simp add: hw_device_init_from_string_def arg init_type_prefix [OF tname] av_strndup_def
        hw_device_add_def)
  have found: "hw_device_get_by_name (hw_devices @ [?d]) nm = Some ?d"
    using fresh by (simp add: get_by_name_append)
  have name': "init_name env' (hw_devices @ [?d]) (av_hwdevice_find_type_by_name env' tname')
                 (CHR ''='' # nm @ rest') = Goto_invalid ''named device already exists''"
    using init_name_explicit [OF nm rest' alloc'(2)] found by simp
  have second: "hw_device_init_from_string env' (hw_devices @ [?d]) arg' =
                  init_invalid (hw_devices @ [?d]) arg' ''named device already exists''"
    using alloc'(1) ty' name'
    by (simp add: hw_device_init_from_string_def arg' init_type_prefix [OF tname'] av_strndup_def)
  from first found second show ?thesis
    by (simp add: init_invalid_def)
qed

theorem init_from_string_named_device_witness:
  "ret (hw_device_init_from_string example_env [example_device] ''cuda=gpu:0,a=b'') = 0 \<and>
   (\<exists>d. hw_device_get_by_name
           (devices (hw_device_init_from_string example_env [example_device] ''cuda=gpu:0,a=b''))
           ''gpu'' = Some d \<and> type d = AV_HWDEVICE_TYPE 2) \<and>
   ret (hw_device_init_from_string example_env_retry
          (devices (hw_device_init_from_string example_env [example_device] ''cuda=gpu:0,a=b''))
          ''cuda=gpu@vaapi0'') = AVERROR EINVAL"
proof -
  have h: "''cuda=gpu:0,a=b'' = ''cuda'' @ ''='' @ ''gpu'' @ '':'' @ ''0'' @ '','' @ ''a=b''"
    "set ''cuda'' \<inter> set '':=@'' = {}" "set ''gpu'' \<inter> set '':@,'' = {}" "CHR '','' \<notin> set ''0''"
    "\<forall>site. site \<noteq> Malloc_default_name \<longrightarrow> alloc_ok example_env site"
    "av_hwdevice_find_type_by_name example_env ''cuda'' = AV_HWDEVICE_TYPE 2"
    "AV_HWDEVICE_TYPE 2 \<noteq> AV_HWDEVICE_TYPE_NONE"
    "hw_device_get_by_name [example_device] ''gpu'' = None"
    "av_dict_parse_string example_env ''a=b'' ''='' '','' = (0, Some [])" "(0::int) \<le> 0"
    "0 \<le> fst (av_hwdevice_ctx_create example_env (AV_HWDEVICE_TYPE 2)
                 (if ''0'' = [] then None else Some ''0'') (Some []))"
    "''cuda=gpu@vaapi0'' = ''cuda'' @ ''='' @ ''gpu'' @ ''@vaapi0''"
    "''@vaapi0'' = [] \<or> hd ''@vaapi0'' \<in> set '':@,''"
    "alloc_ok example_env_retry Strndup_type_name" "alloc_ok example_env_retry Strndup_name"
    "av_hwdevice_find_type_by_name example_env_retry ''cuda'' \<noteq> AV_HWDEVICE_TYPE_NONE"
    by (simp_all add: example_env_def example_env_retry_def example_device_def)
  from init_from_string_named_device
    [OF h(1) h(2) h(3) h(4) h(5) h(6) h(7) h(8) h(9) h(10) h(11) h(12) h(2) h(13) h(14) h(15) h(16)]
  show ?thesis by auto
qed


subsection \<open>Setting up a decoder\<close>

lemma decode_loop_results:
  "hw_device_setup_for_decode_loop hw_devices ist i =
     Inl (AVERROR ENOSYS, [Decoder_does_not_support_any_device_type]) \<or>
   (\<exists>dev. hw_device_setup_for_decode_loop hw_devices ist i = Inr (Some dev))"
proof (induction hw_devices ist i rule: hw_device_setup_for_decode_loop.induct)
  case (1 hw_devices ist i)
  then show ?case
    by (subst (1 2) hw_device_setup_for_decode_loop.simps) (auto split: option.splits)
qed

lemma decode_never_no_suitable_device:
  "No_suitable_hwaccel_device_found \<notin>
     set (fst (snd (hw_device_setup_for_decode env hw_devices ist)))"
  using decode_loop_results [of hw_devices ist 0]
  by (auto simp: hw_device_setup_for_decode_def Let_def split: prod.splits if_splits)

lemma decode_without_device:
  assumes "hwaccel_id ist \<noteq> HWACCEL_NONE"
    and "hw_device_get_by_type hw_devices (hwaccel_device_type ist) = None"
  shows "hw_device_setup_for_decode env hw_devices ist =
           (AVERROR ENOSYS, [Decoder_does_not_support_any_device_type], ist)"
proof -
  have "hw_device_setup_for_decode_loop hw_devices ist i =
          Inl (AVERROR ENOSYS, [Decoder_does_not_support_any_device_type])" for i
    using assms(2)
  proof (induction hw_devices ist i rule: hw_device_setup_for_decode_loop.induct)
    case (1 hw_devices ist i)
    then show ?case
      by (subst hw_device_setup_for_decode_loop.simps) (auto split: option.splits)
  qed
  with assms(1) show ?thesis
    by (simp add: hw_device_setup_for_decode_def)
qed

text \<open>
  Claim C2. The claim says that a decoder whose table has a device-context entry of the
  requested type, while no device of that type is registered, makes
  \<open>hw_device_setup_for_decode\<close> fail with the message that no suitable device was found, an
  error different from the one for a table without any device-context entry. The code does
  not: its loop goes on past the entry when no device is found and runs into the end of the
  table, so both decoders get \<^verbatim>\<open>AVERROR(ENOSYS)\<close> and the message that the decoder
  supports no device type. Here the registry holds one device, of type 3, and the stream
  asks for type 2.
\<close>

theorem decode_missing_device_reports_no_device_type:
  "hw_device_setup_for_decode example_decode_env [example_device] (example_ist example_decoder) =
     (AVERROR ENOSYS, [Decoder_does_not_support_any_device_type], example_ist example_decoder) \<and>
   hw_device_setup_for_decode example_decode_env [example_device]
       (example_ist example_decoder_software) =
     (AVERROR ENOSYS, [Decoder_does_not_support_any_device_type],
      example_ist example_decoder_software)"
  by code_simp

subsection \<open>Setting up an encoder\<close>

lemma set_hwframe_ctx_loop_frame:
  "\<exists>frames. set_hwframe_ctx_loop env ost cdc ectx dev i = ost\<lparr>hw_frames_ctx := frames\<rparr>"
proof (induction env ost cdc ectx dev i rule: set_hwframe_ctx_loop.induct)
  case (1 env ost cdc ectx dev i)
  show ?case
  proof (cases "avcodec_get_hw_config cdc i")
    case None
    have "ost = ost\<lparr>hw_frames_ctx := hw_frames_ctx ost\<rparr>" by simp
    with None show ?thesis
      by (subst set_hwframe_ctx_loop.simps) (auto intro: exI [of _ "hw_frames_ctx ost"])
  next
    case (Some config)
    with 1 show ?thesis
      by (subst set_hwframe_ctx_loop.simps) (auto split: prod.splits)
  qed
qed

lemma set_hwframe_ctx_frame:
  "set_hwframe_ctx env ost cdc ectx dev =
     ost\<lparr>hw_frames_ctx := hw_frames_ctx (set_hwframe_ctx env ost cdc ectx dev)\<rparr>"
  using set_hwframe_ctx_loop_frame [of env ost cdc ectx dev 0]
  by (auto simp: set_hwframe_ctx_def)

text \<open>
  Claim C7. \<open>hw_device_setup_for_encode\<close> returns 0 and changes nothing when no
  registered device matches the codec of the encoder. It returns 0, binds nothing and
  releases nothing when \<open>set_hwframe_ctx\<close> leaves no frame pool in the output stream.
  When there is a pool and binding it to the encoder fails, it releases the pool, clears
  \<^verbatim>\<open>ost->hw_frames_ctx\<close> and returns the error of the binding.
\<close>

theorem hw_device_setup_for_encode_fallbacks:
  "(hw_device_match_by_codec hw_devices (codec (enc_ctx ost)) = None \<longrightarrow>
      hw_device_setup_for_encode env hw_devices ost = (0, ost, [])) \<and>
   (hw_device_match_by_codec hw_devices (codec (enc_ctx ost)) = Some dev \<and>
    hw_frames_ctx (set_hwframe_ctx env ost (codec (enc_ctx ost)) (enc_ctx ost) dev) = None \<longrightarrow>
      hw_device_setup_for_encode env hw_devices ost = (0, ost\<lparr>hw_frames_ctx := None\<rparr>, [])) \<and>
   (hw_device_match_by_codec hw_devices (codec (enc_ctx ost)) = Some dev \<and>
    hw_frames_ctx (set_hwframe_ctx env ost (codec (enc_ctx ost)) (enc_ctx ost) dev) = Some frames \<and>
    fst (avcodec_set_hw_frames_ctx env (enc_ctx ost) frames) < 0 \<longrightarrow>
      hw_device_setup_for_encode env hw_devices ost =
        (fst (avcodec_set_hw_frames_ctx env (enc_ctx ost) frames),
         ost\<lparr>enc_ctx := snd (avcodec_set_hw_frames_ctx env (enc_ctx ost) frames),
             hw_frames_ctx := None\<rparr>,
         [frames]))"
proof (intro conjI impI)
  assume "hw_device_match_by_codec hw_devices (codec (enc_ctx ost)) = None"
  then show "hw_device_setup_for_encode env hw_devices ost = (0, ost, [])"
    by (simp add: hw_device_setup_for_encode_def)
next
  let ?ost = "set_hwframe_ctx env ost (codec (enc_ctx ost)) (enc_ctx ost) dev"
  assume h: "hw_device_match_by_codec hw_devices (codec (enc_ctx ost)) = Some dev \<and>
    hw_frames_ctx ?ost = None"
  with set_hwframe_ctx_frame [of env ost "codec (enc_ctx ost)" "enc_ctx ost" dev]
  have "?ost = ost\<lparr>hw_frames_ctx := None\<rparr>" by simp
  with h show "hw_device_setup_for_encode env hw_devices ost = (0, ost\<lparr>hw_frames_ctx := None\<rparr>, [])"
    by (simp add: hw_device_setup_for_encode_def)
next
  let ?ost = "set_hwframe_ctx env ost (codec (enc_ctx ost)) (enc_ctx ost) dev"
  assume h: "hw_device_match_by_codec hw_devices (codec (enc_ctx ost)) = Some dev \<and>
    hw_frames_ctx ?ost = Some frames \<and>
    fst (avcodec_set_hw_frames_ctx env (enc_ctx ost) frames) < 0"
  with set_hwframe_ctx_frame [of env ost "codec (enc_ctx ost)" "enc_ctx ost" dev]
  have "?ost = ost\<lparr>hw_frames_ctx := Some frames\<rparr>" by simp
  with h show "hw_device_setup_for_encode env hw_devices ost =
        (fst (avcodec_set_hw_frames_ctx env (enc_ctx ost) frames),
         ost\<lparr>enc_ctx := snd (avcodec_set_hw_frames_ctx env (enc_ctx ost) frames),
             hw_frames_ctx := None\<rparr>,
         [frames])"
    by (auto simp: hw_device_setup_for_encode_def Let_def split: prod.splits)
qed

theorem hw_device_setup_for_encode_fallbacks_witness:
  "hw_device_setup_for_encode example_encode_env [] example_ost = (0, example_ost, []) \<and>
   hw_device_setup_for_encode example_encode_env_no_frames [example_device] example_ost =
     (0, example_ost, []) \<and>
   hw_device_setup_for_encode example_encode_env [example_device] example_ost =
     (AVERROR EINVAL, example_ost, [9])"
proof -
  have a: "hw_device_match_by_codec [] (codec (enc_ctx example_ost)) = None"
    "hw_device_match_by_codec [example_device] (codec (enc_ctx example_ost)) = Some example_device"
    "hw_frames_ctx (set_hwframe_ctx example_encode_env_no_frames example_ost
       (codec (enc_ctx example_ost)) (enc_ctx example_ost) example_device) = None"
    "hw_frames_ctx (set_hwframe_ctx example_encode_env example_ost
       (codec (enc_ctx example_ost)) (enc_ctx example_ost) example_device) = Some 9"
    "fst (avcodec_set_hw_frames_ctx example_encode_env (enc_ctx example_ost) 9) < 0"
    by code_simp+
  have b: "example_ost\<lparr>hw_frames_ctx := None\<rparr> = example_ost"
    "avcodec_set_hw_frames_ctx example_encode_env (enc_ctx example_ost) 9 =
       (AVERROR EINVAL, enc_ctx example_ost)"
    by (simp_all add: example_ost_def example_encode_env_def)
  from hw_device_setup_for_encode_fallbacks
      [where hw_devices = "[]" and ost = example_ost and env = example_encode_env] a
  have c1: "hw_device_setup_for_encode example_encode_env [] example_ost = (0, example_ost, [])"
    by simp
  from hw_device_setup_for_encode_fallbacks
      [where hw_devices = "[example_device]" and ost = example_ost and dev = example_device
         and env = example_encode_env_no_frames] a b
  have c2: "hw_device_setup_for_encode example_encode_env_no_frames [example_device] example_ost =
     (0, example_ost, [])"
    by simp
  from hw_device_setup_for_encode_fallbacks
      [where hw_devices = "[example_device]" and ost = example_ost and dev = example_device
         and env = example_encode_env and frames = 9] a b
  have c3: "hw_device_setup_for_encode example_encode_env [example_device] example_ost =
     (AVERROR EINVAL, example_ost, [9])"
    by simp
  from c1 c2 c3 show ?thesis by simp
qed

subsection \<open>Setting up a filter graph\<close>

lemma filter_loop_all_set:
  "\<forall>f\<in>set fs. \<not> hwupload_device_fails env dev f \<Longrightarrow>
   hw_device_setup_for_filter_loop env dev fs = (0, map (hwupload_device_set env dev) fs)"
  by (induction fs)
     (auto simp: hwupload_device_fails_def hwupload_device_set_def split: prod.splits)

lemma filter_loop_first_failure:
  "\<forall>g\<in>set pre. \<not> hwupload_device_fails env dev g \<Longrightarrow> hwupload_device_fails env dev f \<Longrightarrow>
   hw_device_setup_for_filter_loop env dev (pre @ f # post) =
     (fst (av_opt_set env f ''device'' (name dev)),
      map (hwupload_device_set env dev) pre @ snd (av_opt_set env f ''device'' (name dev)) # post)"
  by (induction pre)
     (auto simp: hwupload_device_fails_def hwupload_device_set_def split: prod.splits)

text \<open>
  Claim C8. With a device selected, \<open>hw_device_setup_for_filter\<close> sets the option
  \<^verbatim>\<open>device\<close> to the name of the device on every \<^verbatim>\<open>hwupload\<close> filter of the graph and
  returns 0; when setting it fails on a filter, the filters before that one have the option
  set, the filters after it are untouched, and the value returned is the error of the
  first failure. With no input at the sink, no decoder or no matching device it returns 0
  and leaves every filter as it is.
\<close>

theorem hw_device_setup_for_filter_sets_device:
  "(inputs (sink (graph fg)) \<noteq> [] \<and>
    avcodec_find_decoder env (hd (inputs (sink (graph fg)))) = Some cdc \<and>
    hw_device_match_by_codec hw_devices cdc = Some dev \<longrightarrow>
      ((\<forall>f\<in>set (filters (graph fg)). \<not> hwupload_device_fails env dev f) \<longrightarrow>
         hw_device_setup_for_filter env hw_devices fg =
           (0, map (hwupload_device_set env dev) (filters (graph fg)))) \<and>
      (\<forall>pre f post.
         filters (graph fg) = pre @ f # post \<and>
         (\<forall>g\<in>set pre. \<not> hwupload_device_fails env dev g) \<and> hwupload_device_fails env dev f \<longrightarrow>
         hw_device_setup_for_filter env hw_devices fg =
           (fst (av_opt_set env f ''device'' (name dev)),
            map (hwupload_device_set env dev) pre @
              snd (av_opt_set env f ''device'' (name dev)) # post))) \<and>
   (inputs (sink (graph fg)) = [] \<or>
    avcodec_find_decoder env (hd (inputs (sink (graph fg)))) = None \<or>
    (\<exists>c. avcodec_find_decoder env (hd (inputs (sink (graph fg)))) = Some c \<and>
         hw_device_match_by_codec hw_devices c = None) \<longrightarrow>
      hw_device_setup_for_filter env hw_devices fg = (0, filters (graph fg)))"
  by (auto simp: hw_device_setup_for_filter_def filter_loop_all_set filter_loop_first_failure)

theorem hw_device_setup_for_filter_sets_device_witness:
  "hw_device_setup_for_filter example_filter_env [example_device]
     (example_fg [example_filter ''hwupload'', example_filter ''scale'', example_filter ''hwupload'']) =
     (0, [example_filter_set, example_filter ''scale'', example_filter_set]) \<and>
   hw_device_setup_for_filter example_filter_env [example_device]
     (example_fg [example_filter ''hwupload'', example_filter_set, example_filter ''hwupload'']) =
     (AVERROR EINVAL, [example_filter_set, example_filter_set, example_filter ''hwupload'']) \<and>
   hw_device_setup_for_filter example_filter_env []
     (example_fg [example_filter ''hwupload'']) = (0, [example_filter ''hwupload''])"
proof -
  let ?up = "example_filter ''hwupload''" and ?sc = "example_filter ''scale''"
  have a: "inputs (sink (graph (example_fg fs))) \<noteq> []"
    "avcodec_find_decoder example_filter_env (hd (inputs (sink (graph (example_fg fs))))) =
       Some example_encoder"
    "filters (graph (example_fg fs)) = fs" for fs
    by (simp_all add: example_fg_def example_filter_def example_filter_env_def)
  have m: "hw_device_match_by_codec [example_device] example_encoder = Some example_device"
    "hw_device_match_by_codec [] example_encoder = None"
    by code_simp+
  have f: "\<not> hwupload_device_fails example_filter_env example_device ?up"
    "\<not> hwupload_device_fails example_filter_env example_device ?sc"
    "hwupload_device_fails example_filter_env example_device example_filter_set"
    "hwupload_device_set example_filter_env example_device ?up = example_filter_set"
    "hwupload_device_set example_filter_env example_device ?sc = ?sc"
    "av_opt_set example_filter_env example_filter_set ''device'' (name example_device) =
       (AVERROR EINVAL, example_filter_set)"
    by (simp_all add: hwupload_device_fails_def hwupload_device_set_def example_filter_env_def
        example_filter_def example_filter_set_def example_device_def AVERROR_def EINVAL_def)
  note inst = hw_device_setup_for_filter_sets_device
    [where env = example_filter_env and cdc = example_encoder and dev = example_device]
  have c1: "hw_device_setup_for_filter example_filter_env [example_device]
     (example_fg [?up, ?sc, ?up]) = (0, [example_filter_set, ?sc, example_filter_set])"
    using inst [where hw_devices = "[example_device]" and fg = "example_fg [?up, ?sc, ?up]"] a m f
    by simp
  have c2: "hw_device_setup_for_filter example_filter_env [example_device]
     (example_fg [?up, example_filter_set, ?up]) =
     (AVERROR EINVAL, [example_filter_set, example_filter_set, ?up])"
    using inst [where hw_devices = "[example_device]"
        and fg = "example_fg [?up, example_filter_set, ?up]",
        THEN conjunct1, rule_format, THEN conjunct2, rule_format,
        of "[?up]" example_filter_set "[?up]"] a m f
    by simp
  have c3: "hw_device_setup_for_filter example_filter_env []
     (example_fg [?up]) = (0, [?up])"
    using inst [where hw_devices = "[]" and fg = "example_fg [?up]"] a m
    by simp
  from c1 c2 c3 show ?thesis by simp
qed

subsection \<open>Remixing a frame\<close>

lemma remix_audio_loop_done:
  "\<not> int i < remix_size \<Longrightarrow> remix_audio_loop remix_frame frame remix_map remix_size i = Inr remix_frame"
  by (simp add: remix_audio_loop.simps)

lemma remix_audio_loop_step:
  assumes "int i < remix_size" "i < length remix_map"
    and "plane_at frame (remix_map ! i) = Inr src"
    and "plane_at remix_frame (int i) = Inr dst"
    and "linesize remix_frame \<le> length src" "linesize remix_frame \<le> length dst"
  shows "remix_audio_loop remix_frame frame remix_map remix_size i =
           remix_audio_loop
             (remix_frame\<lparr>data := (data remix_frame)
                 [i := take (linesize remix_frame) src @ drop (linesize remix_frame) dst]\<rparr>)
             frame remix_map remix_size (Suc i)"
  using assms by (subst remix_audio_loop.simps) (simp add: memcpy_def)

text \<open>
  Claim C3, as stated: for a frame of three planes \<open>[A, B, C]\<close> and the map \<open>[2, 0]\<close>,
  \<open>remix_audio\<close> leaves exactly two planes in the frame, and for \<^verbatim>\<open>remix_size = 0\<close> a
  frame without planes. It fails: the new frame gets the channel layout of the input and
  \<^verbatim>\<open>av_frame_get_buffer\<close> allocates its planes from that, so the frame of three channels
  has three planes afterwards, whatever \<^verbatim>\<open>remix_size\<close> is.
\<close>

theorem remix_audio_keeps_allocated_planes:
  "remix_audio example_frame_env (Some example_frame) [2, 0] 2 =
     Inr (0, [], Some example_frame_remixed) \<and>
   length (data example_frame_remixed) = 3 \<and>
   remix_audio example_frame_env (Some example_frame) [2, 0] 0 =
     Inr (0, [], Some example_frame_unmixed) \<and>
   length (data example_frame_unmixed) = 3"
  by code_simp

text \<open>
  Claim C3, amended. For a frame of three planes \<open>[A, B, C]\<close> and the map \<open>[2, 0]\<close> with
  \<^verbatim>\<open>remix_size = 2\<close>, when the two allocations succeed and give at least two planes of at
  least the line size, \<open>remix_audio\<close> returns 0 and the frame then holds the planes that
  \<^verbatim>\<open>av_frame_get_buffer\<close> allocated for the channel layout, format and number of samples
  of the input: the first two start with the first line of \<open>C\<close> and of \<open>A\<close>, the others are
  as allocated. The channel layout, sample rate, format, number of samples and timestamps are
  those of the input. For \<^verbatim>\<open>remix_size = 0\<close> it returns 0 and the frame holds the
  allocated planes, all untouched.
\<close>

theorem remix_audio_selects_planes:
  assumes alloc: "av_frame_alloc env = Some blank"
    and buffer: "av_frame_get_buffer env
                   (blank\<lparr>channel_layout := channel_layout frame, sample_rate := sample_rate frame,
                          format := format frame, nb_samples := nb_samples frame\<rparr>) 0 =
                 (err, planes, ls)" "0 \<le> err"
    and frame: "data frame = [A, B, C]" "ls \<le> length A" "ls \<le> length C"
    and planes: "planes = P0 # P1 # rest" "ls \<le> length P0" "ls \<le> length P1"
  shows "remix_audio env (Some frame) [2, 0] 2 =
           Inr (0, [],
                Some (blank\<lparr>data := (take ls C @ drop ls P0) # (take ls A @ drop ls P1) # rest,
                            linesize := ls,
                            channel_layout := channel_layout frame,
                            sample_rate := sample_rate frame,
                            format := format frame,
                            nb_samples := nb_samples frame,
                            pts := pts frame, pkt_dts := pkt_dts frame\<rparr>)) \<and>
         remix_audio env (Some frame) remix_map 0 =
           Inr (0, [],
                Some (blank\<lparr>data := planes,
                            linesize := ls,
                            channel_layout := channel_layout frame,
                            sample_rate := sample_rate frame,
                            format := format frame,
                            nb_samples := nb_samples frame,
                            pts := pts frame, pkt_dts := pkt_dts frame\<rparr>))"
proof -
  let ?rf = "blank\<lparr>channel_layout := channel_layout frame, sample_rate := sample_rate frame,
                    format := format frame, nb_samples := nb_samples frame,
                    data := planes, linesize := ls\<rparr>"
  have l0: "remix_audio_loop ?rf frame remix_map 0 0 = Inr ?rf"
    by (simp add: remix_audio_loop_done)
  have s0: "remix_audio_loop ?rf frame [2, 0] 2 0 =
        remix_audio_loop (?rf\<lparr>data := (take ls C @ drop ls P0) # P1 # rest\<rparr>) frame [2, 0] 2 (Suc 0)"
    using frame planes
    by (subst remix_audio_loop_step [where src = C and dst = P0])
       (simp_all add: plane_at_def AV_NUM_DATA_POINTERS_def)
  have s1: "remix_audio_loop (?rf\<lparr>data := (take ls C @ drop ls P0) # P1 # rest\<rparr>) frame [2, 0] 2 (Suc 0) =
        remix_audio_loop
          (?rf\<lparr>data := (take ls C @ drop ls P0) # (take ls A @ drop ls P1) # rest\<rparr>)
          frame [2, 0] 2 (Suc (Suc 0))"
    using frame planes
    by (subst remix_audio_loop_step [where src = A and dst = P1])
       (simp_all add: plane_at_def AV_NUM_DATA_POINTERS_def)
  have l2: "remix_audio_loop ?rf frame [2, 0] 2 0 =
        Inr (?rf\<lparr>data := (take ls C @ drop ls P0) # (take ls A @ drop ls P1) # rest\<rparr>)"
    using s0 s1 by (simp add: remix_audio_loop_done)
  show ?thesis
    using alloc buffer l0 l2
    by (simp add: remix_audio_def av_frame_copy_props_def)
qed

theorem remix_audio_selects_planes_witness:
  "remix_audio example_frame_env (Some example_frame) [2, 0] 2 =
     Inr (0, [],
          Some \<lparr>data = [[9, 10, 11, 12], [1, 2, 3, 4], [0, 0, 0, 0]], linesize = 4,
                channel_layout = 7, sample_rate = 48000, format = 5, nb_samples = 4,
                pts = 1000, pkt_dts = 990\<rparr>) \<and>
   remix_audio example_frame_env (Some example_frame) [] 0 =
     Inr (0, [],
          Some \<lparr>data = [[0, 0, 0, 0], [0, 0, 0, 0], [0, 0, 0, 0]], linesize = 4,
                channel_layout = 7, sample_rate = 48000, format = 5, nb_samples = 4,
                pts = 1000, pkt_dts = 990\<rparr>)"
proof -
  have h: "av_frame_alloc example_frame_env = Some example_blank_frame"
    "av_frame_get_buffer example_frame_env
       (example_blank_frame\<lparr>channel_layout := channel_layout example_frame,
          sample_rate := sample_rate example_frame, format := format example_frame,
          nb_samples := nb_samples example_frame\<rparr>) 0 =
     (0, [[0, 0, 0, 0], [0, 0, 0, 0], [0, 0, 0, 0]], 4)"
    "(0::int) \<le> 0"
    "data example_frame = [[1, 2, 3, 4], [5, 6, 7, 8], [9, 10, 11, 12]]"
    "4 \<le> length [1, 2, 3, 4 :: 8 word]" "4 \<le> length [9, 10, 11, 12 :: 8 word]"
    "[[0, 0, 0, 0], [0, 0, 0, 0], [0, 0, 0, 0]] =
       [0, 0, 0, 0 :: 8 word] # [0, 0, 0, 0] # [[0, 0, 0, 0]]"
    "4 \<le> length [0, 0, 0, 0 :: 8 word]"
    by code_simp+
  from remix_audio_selects_planes [OF h(1) h(2) h(3) h(4) h(5) h(6) h(7) h(8) h(8), of "[]"]
  show ?thesis
    by (simp add: example_frame_def example_blank_frame_def)
qed

subsection \<open>The loop that reads, decodes and remixes\<close>

lemma remix_audio_null:
  "remix_audio env None remix_map remix_size = Inr (r, msgs, fr) \<Longrightarrow> fr = None"
  by (auto simp: remix_audio_def split: option.splits)

lemma receive_frames_null:
  "frame_handle s = None \<Longrightarrow> list_all null_handle (calls s) \<Longrightarrow>
   frame_handle (snd (receive_frames fuel env remix_map remix_size s)) = None \<and>
   list_all null_handle (calls (snd (receive_frames fuel env remix_map remix_size s)))"
proof (induction fuel arbitrary: s)
  case 0
  then show ?case by simp
next
  case (Suc fuel)
  show ?case
    using Suc.prems
    by (auto simp: Let_def split: prod.splits sum.splits dest: remix_audio_null intro!: Suc.IH [THEN conjunct1] Suc.IH [THEN conjunct2])
qed

lemma receive_frames_negative:
  "receive_frames fuel env remix_map remix_size s = (Some (Inr r), s') \<Longrightarrow> r < 0"
proof (induction fuel arbitrary: s)
  case 0
  then show ?case by simp
next
  case (Suc fuel)
  from Suc.prems show ?case
    by (auto simp: Let_def split: prod.splits sum.splits if_splits dest: Suc.IH)
qed

lemma read_frames_null:
  "frame_handle s = None \<and> list_all null_handle (calls s) \<Longrightarrow>
   frame_handle (snd (read_frames fuel env index remix_map remix_size s)) = None \<and>
   list_all null_handle (calls (snd (read_frames fuel env index remix_map remix_size s)))"
proof (induction fuel arbitrary: s)
  case 0
  then show ?case by simp
next
  case (Suc fuel)
  obtain r pkt w where rd: "av_read_frame env (world s) = (r, pkt, w)"
    by (cases "av_read_frame env (world s)") auto
  let ?s1 = "s\<lparr>world := w, calls := calls s @ [Call_av_read_frame pkt r]\<rparr>"
  obtain r' w' where sd: "avcodec_send_packet env w pkt = (r', w')"
    by (cases "avcodec_send_packet env w pkt") auto
  let ?s2 = "?s1\<lparr>world := w', calls := calls ?s1 @ [Call_avcodec_send_packet pkt r']\<rparr>"
  obtain res s3 where rc: "receive_frames fuel env remix_map remix_size ?s2 = (res, s3)"
    by (cases "receive_frames fuel env remix_map remix_size ?s2") auto
  have s2: "frame_handle ?s2 = None" "list_all null_handle (calls ?s2)"
    using Suc.prems by simp_all
  from receive_frames_null [OF s2, of fuel env remix_map remix_size] rc
  have s3: "frame_handle s3 = None \<and> list_all null_handle (calls s3)"
    by simp
  then have s4: "frame_handle (s3\<lparr>calls := calls s3 @ [Call_av_packet_unref pkt]\<rparr>) = None \<and>
      list_all null_handle (calls (s3\<lparr>calls := calls s3 @ [Call_av_packet_unref pkt]\<rparr>))"
    by simp
  have s1: "frame_handle (?s1\<lparr>calls := calls ?s1 @ [Call_av_packet_unref pkt]\<rparr>) = None \<and>
      list_all null_handle (calls (?s1\<lparr>calls := calls ?s1 @ [Call_av_packet_unref pkt]\<rparr>))"
    using Suc.prems by simp
  show ?case
  proof (cases "0 \<le> r")
    case False
    with rd Suc.prems show ?thesis by simp
  next
    case True
    show ?thesis
    proof (cases "stream_index pkt = index")
      case False
      with True rd Suc.IH [OF s1] show ?thesis by simp
    next
      case match: True
      show ?thesis
      proof (cases "r' < 0")
        case True
        with \<open>0 \<le> r\<close> match rd sd Suc.prems show ?thesis by simp
      next
        case False
        with \<open>0 \<le> r\<close> match rd sd rc s3 Suc.IH [OF s3] Suc.IH [OF s4] show ?thesis
          by (auto split: option.splits sum.splits)
      qed
    qed
  qed
qed

text \<open>
  Claim C10. In \<open>apply_audio_remix\<close> the frame handle is \<^verbatim>\<open>NULL\<close> before the loop and
  nothing assigns to it, so every call of \<^verbatim>\<open>avcodec_receive_frame\<close>, in every iteration
  and in every run, however long, gets the same handle, \<^verbatim>\<open>NULL\<close>.
\<close>

theorem apply_audio_remix_frame_stays_null:
  "\<forall>c\<in>set (calls (snd (apply_audio_remix fuel env ist remix_map remix_size w))).
     \<forall>fr r. c = Call_avcodec_receive_frame fr r \<longrightarrow> fr = None"
proof -
  let ?s0 = "\<lparr>world = w, frame_handle = None, calls = [], logs = []\<rparr>"
  have "frame_handle ?s0 = None \<and> list_all null_handle (calls ?s0)"
    by simp
  from read_frames_null [OF this, of fuel env "st_index ist" remix_map remix_size]
  have "list_all null_handle (calls (snd (apply_audio_remix fuel env ist remix_map remix_size w)))"
    by (auto simp: apply_audio_remix_def split: prod.splits option.splits sum.splits)
  then show ?thesis
    by (auto simp: list_all_iff)
qed

theorem apply_audio_remix_frame_stays_null_witness:
  "Call_avcodec_receive_frame None (AVERROR EAGAIN) \<in>
     set (calls (snd (apply_audio_remix 3 (example_remix_env (AVERROR EAGAIN))
                        (example_ist example_decoder) [2, 0] 2 0))) \<and>
   Call_avcodec_receive_frame (Some example_frame) (AVERROR EAGAIN) \<notin>
     set (calls (snd (apply_audio_remix 3 (example_remix_env (AVERROR EAGAIN))
                        (example_ist example_decoder) [2, 0] 2 0)))"
proof -
  have "Call_avcodec_receive_frame None (AVERROR EAGAIN) \<in>
     set (calls (snd (apply_audio_remix 3 (example_remix_env (AVERROR EAGAIN))
                        (example_ist example_decoder) [2, 0] 2 0)))"
    by code_simp
  with apply_audio_remix_frame_stays_null
    [of 3 "example_remix_env (AVERROR EAGAIN)" "example_ist example_decoder" "[2, 0]" 2 0]
  show ?thesis by blast
qed

lemma receive_frames_unref:
  "Call_av_packet_unref p \<in> set (calls (snd (receive_frames fuel env remix_map remix_size s))) \<Longrightarrow>
   Call_av_packet_unref p \<in> set (calls s)"
proof (induction fuel arbitrary: s)
  case 0
  then show ?case by simp
next
  case (Suc fuel)
  from Suc.prems show ?case
    by (auto simp: Let_def split: prod.splits sum.splits if_splits dest!: Suc.IH)
qed

lemma read_frames_unref:
  "\<forall>p. Call_av_packet_unref p \<in> set (calls s) \<longrightarrow> stream_index p \<noteq> index \<Longrightarrow>
   \<forall>p. Call_av_packet_unref p \<in> set (calls (snd (read_frames fuel env index remix_map remix_size s)))
       \<longrightarrow> stream_index p \<noteq> index"
proof (induction fuel arbitrary: s)
  case 0
  then show ?case by simp
next
  case (Suc fuel)
  obtain r pkt w where rd: "av_read_frame env (world s) = (r, pkt, w)"
    by (cases "av_read_frame env (world s)") auto
  let ?s1 = "s\<lparr>world := w, calls := calls s @ [Call_av_read_frame pkt r]\<rparr>"
  obtain r' w' where sd: "avcodec_send_packet env w pkt = (r', w')"
    by (cases "avcodec_send_packet env w pkt") auto
  let ?s2 = "?s1\<lparr>world := w', calls := calls ?s1 @ [Call_avcodec_send_packet pkt r']\<rparr>"
  obtain res s3 where rc: "receive_frames fuel env remix_map remix_size ?s2 = (res, s3)"
    by (cases "receive_frames fuel env remix_map remix_size ?s2") auto
  have s3: "\<forall>p. Call_av_packet_unref p \<in> set (calls s3) \<longrightarrow> stream_index p \<noteq> index"
    using receive_frames_unref [of _ fuel env remix_map remix_size ?s2] rc Suc.prems
    by auto
  have neg: "x < 0" if "res = Some (Inr x)" for x
    using receive_frames_negative [of fuel env remix_map remix_size ?s2 x s3] rc that by simp
  show ?case
  proof (cases "0 \<le> r")
    case False
    with rd Suc.prems show ?thesis by simp
  next
    case True
    show ?thesis
    proof (cases "stream_index pkt = index")
      case False
      then have "\<forall>p. Call_av_packet_unref p \<in>
          set (calls (?s1\<lparr>calls := calls ?s1 @ [Call_av_packet_unref pkt]\<rparr>)) \<longrightarrow>
          stream_index p \<noteq> index"
        using Suc.prems by auto
      from Suc.IH [OF this] True False rd show ?thesis by simp
    next
      case match: True
      show ?thesis
      proof (cases "r' < 0")
        case True
        with \<open>0 \<le> r\<close> match rd sd Suc.prems show ?thesis by simp
      next
        case False
        with \<open>0 \<le> r\<close> match rd sd rc s3 Suc.IH [OF s3] neg show ?thesis
          by (auto split: option.splits sum.splits)
      qed
    qed
  qed
qed

lemma apply_audio_remix_never_releases_stream_packets:
  "Call_av_packet_unref p \<in>
     set (calls (snd (apply_audio_remix fuel env ist remix_map remix_size w))) \<Longrightarrow>
   stream_index p \<noteq> st_index ist"
  using read_frames_unref
    [of "\<lparr>world = w, frame_handle = None, calls = [], logs = []\<rparr>" "st_index ist"
        fuel env remix_map remix_size]
  by (auto simp: apply_audio_remix_def split: prod.splits option.splits sum.splits)

text \<open>
  Claim C4. The claim says that every packet read is released once before the next read or
  the return, whatever stream it belongs to and whatever the decoder did. The code releases
  only the packets of other streams: for a packet of the stream itself the body of the loop
  is left by \<^verbatim>\<open>continue\<close> or \<^verbatim>\<open>break\<close> before \<^verbatim>\<open>av_packet_unref\<close>. Here the one
  packet read belongs to the stream; when the decoder fails with \<^verbatim>\<open>AVERROR(EINVAL)\<close>, and
  when it asks for more input and the file then ends, the function returns without a call
  of \<^verbatim>\<open>av_packet_unref\<close>.
\<close>

theorem apply_audio_remix_keeps_packet:
  "apply_audio_remix 3 (example_remix_env (AVERROR EINVAL)) (example_ist example_decoder) [2, 0] 2 0 =
     (Some (Inr (AVERROR EINVAL)),
      \<lparr>world = 1, frame_handle = None,
       calls = [Call_av_read_frame example_packet 0,
                Call_avcodec_send_packet example_packet 0,
                Call_avcodec_receive_frame None (AVERROR EINVAL),
                Call_av_frame_free None],
       logs = []\<rparr>) \<and>
   apply_audio_remix 3 (example_remix_env (AVERROR EAGAIN)) (example_ist example_decoder) [2, 0] 2 0 =
     (Some (Inr AVERROR_EOF),
      \<lparr>world = 1, frame_handle = None,
       calls = [Call_av_read_frame example_packet 0,
                Call_avcodec_send_packet example_packet 0,
                Call_avcodec_receive_frame None (AVERROR EAGAIN),
                Call_av_read_frame example_no_packet AVERROR_EOF,
                Call_av_frame_free None],
       logs = []\<rparr>)"
  by code_simp

end
